theory Spec2Isabelle
  imports Complex_Main
begin

section \<open>SecureFHSSAlgorithm: data model\<close>

text \<open>
  The embedding follows \<^verbatim>\<open>TEKNOFESTGUVENLIUYDU.py\<close>, class \<^verbatim>\<open>SecureFHSSAlgorithm\<close>.

  Numbers. Python \<^verbatim>\<open>int\<close> is \<^typ>\<open>int\<close>. Python \<^verbatim>\<open>float\<close> is idealised as
  \<^typ>\<open>real\<close>: rounding, overflow to infinity and NaN are not part of the model on reals,
  and a statement about it is a statement about exact real arithmetic. The one infinite
  value the source builds on purpose (\<^verbatim>\<open>float('inf')\<close> for a rejected hop) is a constructor
  of its own. Where a NaN decides what \<^verbatim>\<open>calculate_frequency\<close> does, a second model of that
  method keeps the infinite values and NaN of a float and takes the rounding arithmetic
  as an argument.

  Exceptions are values: a function that can raise returns \<open>py_error + 'a\<close>.

  The pseudo-random generator of Python's library is not code of this class. Each draw is
  an argument of the model: the five \<^verbatim>\<open>randint(1000, 3000)\<close> draws of the constructor, and
  one \<^verbatim>\<open>random()\<close> value in \<open>[0, 1)\<close> behind every \<^verbatim>\<open>uniform(a, b)\<close>, which the library
  computes as \<^verbatim>\<open>a + (b - a) * random()\<close>.

  Console output, time stamps, \<^verbatim>\<open>time.sleep\<close> and the two formatted strings
  \<^verbatim>\<open>'formula'\<close> and \<^verbatim>\<open>'calculation'\<close> of a frequency result are left out.
\<close>

datatype py_error = ZeroDivisionError | ValueError

text \<open>The attributes \<^verbatim>\<open>__init__\<close> sets once and no method assigns again.\<close>

definition f0 :: real where "f0 = 2000"
definition t_hop :: real where "t_hop = 2"
definition band_min :: real where "band_min = 2000"
definition band_max :: real where "band_max = 4000"
definition nominal_amplitude :: real where "nominal_amplitude = 3.0"
definition amplitude_tolerance :: real where "amplitude_tolerance = 0.3"
definition time_tolerance :: real where "time_tolerance = 0.1"
definition k2_constant :: int where "k2_constant = 100"

text \<open>The attributes that make up the algorithm state.\<close>

record state =
  sync_key :: int
  k1_k2_list :: "int list"
  current_k_index :: int
  hop_counter :: int

text \<open>
  \<^verbatim>\<open>__init__\<close>: \<open>randint i\<close> is the \<open>i\<close>-th draw of \<^verbatim>\<open>random.randint(1000, 3000)\<close> after
  seeding with the key; the list is the five draws, sorted.
\<close>

definition init :: "int \<Rightarrow> (nat \<Rightarrow> int) \<Rightarrow> state" where
  "init key randint =
     \<lparr> sync_key = key,
       k1_k2_list = sort (map randint [0..<5]),
       current_k_index = 0,
       hop_counter = 0 \<rparr>"

subsection \<open>Python arithmetic that can raise\<close>

definition py_mod :: "int \<Rightarrow> int \<Rightarrow> py_error + int" where
  "py_mod a b = (if b = 0 then Inl ZeroDivisionError else Inr (a mod b))"

definition py_truediv :: "real \<Rightarrow> real \<Rightarrow> py_error + real" where
  "py_truediv a b = (if b = 0 then Inl ZeroDivisionError else Inr (a / b))"

definition uniform :: "real \<Rightarrow> real \<Rightarrow> real \<Rightarrow> real" where
  "uniform a b r = a + (b - a) * r"

section \<open>Coefficient schedule and frequency calculator\<close>

text \<open>
  \<^verbatim>\<open>get_k1_k2_values\<close>: \<^verbatim>\<open>k1_k2_list[current_k_index % len(k1_k2_list)]\<close>, then
  \<^verbatim>\<open>k1 = product // k2_constant\<close>. The modulus raises on an empty list; on a non-empty one
  its value is a valid index.
\<close>

definition get_k1_k2_values :: "state \<Rightarrow> py_error + (int \<times> int)" where
  "get_k1_k2_values s =
     (case py_mod (current_k_index s) (int (length (k1_k2_list s))) of
        Inl e \<Rightarrow> Inl e
      | Inr i \<Rightarrow>
          (let k1_k2_product = k1_k2_list s ! nat i;
               k1 = k1_k2_product div k2_constant;
               k2 = k2_constant
           in Inr (k1, k2)))"

record frequency_result =
  fr_frequency :: real
  fr_amplitude :: real
  fr_time_ms :: real
  fr_energy :: real
  fr_k1 :: int
  fr_k2 :: int
  fr_k1_k2_product :: int
  fr_k_index :: int
  fr_is_valid :: bool
  fr_attempts :: nat

text \<open>
  The formula inside \<^verbatim>\<open>try\<close>, with its \<^verbatim>\<open>except ZeroDivisionError\<close> branch.
\<close>

definition raw_frequency :: "real \<Rightarrow> int \<Rightarrow> real \<Rightarrow> int \<Rightarrow> real \<Rightarrow> real" where
  "raw_frequency amplitude k1 energy k2 time_ms =
     (case py_truediv (amplitude * of_int k1 + energy * of_int k2) time_ms of
        Inl e \<Rightarrow> f0
      | Inr q \<Rightarrow> f0 + q)"

text \<open>The \<^verbatim>\<open>if frequency < band_min ... elif frequency > band_max ...\<close> correction.\<close>

definition band_correction :: "real \<Rightarrow> real" where
  "band_correction frequency =
     (if frequency < band_min then band_min
      else if frequency > band_max then band_max
      else frequency)"

text \<open>
  The \<^verbatim>\<open>while attempts < max_attempts\<close> loop of \<^verbatim>\<open>calculate_frequency\<close> together with the
  code after it. The state carries \<^verbatim>\<open>self.current_k_index\<close>; \<open>time_ms\<close> is the value after
  the guard.
\<close>

function calculate_frequency_loop ::
  "state \<Rightarrow> real \<Rightarrow> real \<Rightarrow> real \<Rightarrow> nat \<Rightarrow> nat \<Rightarrow> int \<Rightarrow> py_error + (frequency_result \<times> state)"
where
  "calculate_frequency_loop s amplitude time_ms energy attempts max_attempts original_k_index =
     (if attempts < max_attempts then
        (case get_k1_k2_values s of
           Inl e \<Rightarrow> Inl e
         | Inr (k1, k2) \<Rightarrow>
             (let frequency = band_correction (raw_frequency amplitude k1 energy k2 time_ms)
              in if band_min \<le> frequency \<and> frequency \<le> band_max then
                   Inr (\<lparr> fr_frequency = frequency,
                          fr_amplitude = amplitude,
                          fr_time_ms = time_ms,
                          fr_energy = energy,
                          fr_k1 = k1,
                          fr_k2 = k2,
                          fr_k1_k2_product = k1 * k2,
                          fr_k_index = current_k_index s,
                          fr_is_valid = True,
                          fr_attempts = attempts + 1 \<rparr>, s)
                 else
                   (case py_mod (current_k_index s + 1) (int (length (k1_k2_list s))) of
                      Inl e \<Rightarrow> Inl e
                    | Inr i \<Rightarrow>
                        calculate_frequency_loop (s\<lparr>current_k_index := i\<rparr>)
                          amplitude time_ms energy (attempts + 1) max_attempts original_k_index)))
      else
        (let s' = s\<lparr>current_k_index := original_k_index\<rparr>
         in Inr (\<lparr> fr_frequency = f0,
                   fr_amplitude = amplitude,
                   fr_time_ms = time_ms,
                   fr_energy = energy,
                   fr_k1 = 10,
                   fr_k2 = 100,
                   fr_k1_k2_product = 1000,
                   fr_k_index = current_k_index s',
                   fr_is_valid = False,
                   fr_attempts = max_attempts \<rparr>, s')))"
  by pat_completeness auto
termination
  by (relation "measure (\<lambda>(s, amplitude, time_ms, energy, attempts, max_attempts, original_k_index).
        max_attempts - attempts)") auto

definition calculate_frequency ::
  "state \<Rightarrow> real \<Rightarrow> real \<Rightarrow> real \<Rightarrow> py_error + (frequency_result \<times> state)"
where
  "calculate_frequency s amplitude time_ms energy =
     (let time_ms = (if time_ms \<le> 0 then t_hop else time_ms)
      in calculate_frequency_loop s amplitude time_ms energy
           0 (length (k1_k2_list s)) (current_k_index s))"

subsection \<open>The frequency calculator on floating-point values\<close>

text \<open>
  The arguments of \<^verbatim>\<open>calculate_frequency\<close> are Python floats, and a float can be infinite or
  NaN. The second model of \<^verbatim>\<open>calculate_frequency\<close> below keeps these values. A \<open>pyfloat\<close> is
  the value of a float: a finite float by its exact real value, the two infinities, NaN.
  Comparison of two floats is exact, with every comparison against NaN false, so \<open>pf_less\<close>
  and \<open>pf_le\<close> are Python's \<^verbatim>\<open><\<close> and \<^verbatim>\<open><=\<close>.

  Float arithmetic rounds and overflows. It is an argument of this model (\<open>float_arith\<close>:
  the conversion of an \<^verbatim>\<open>int\<close>, addition, multiplication, division by a non-zero
  divisor), so a statement proved for every \<open>float_arith\<close> does not depend on how the
  platform rounds. \<open>exact_arith\<close> is the arithmetic that is exact on finite values and
  follows the IEEE rules on the special ones (\<open>inf - inf\<close>, \<open>0 * inf\<close> and \<open>inf / inf\<close> are
  NaN, NaN propagates).
\<close>

datatype pyfloat = Fin real | PInf | NInf | NaN

fun pf_less :: "pyfloat \<Rightarrow> pyfloat \<Rightarrow> bool" where
  "pf_less (Fin x) (Fin y) = (x < y)"
| "pf_less (Fin x) PInf = True"
| "pf_less NInf (Fin y) = True"
| "pf_less NInf PInf = True"
| "pf_less a b = False"

fun pf_le :: "pyfloat \<Rightarrow> pyfloat \<Rightarrow> bool" where
  "pf_le (Fin x) (Fin y) = (x \<le> y)"
| "pf_le NaN b = False"
| "pf_le a NaN = False"
| "pf_le NInf b = True"
| "pf_le a PInf = True"
| "pf_le a b = False"

record float_arith =
  fl_of_int :: "int \<Rightarrow> pyfloat"
  fl_add :: "pyfloat \<Rightarrow> pyfloat \<Rightarrow> pyfloat"
  fl_mul :: "pyfloat \<Rightarrow> pyfloat \<Rightarrow> pyfloat"
  fl_div :: "pyfloat \<Rightarrow> pyfloat \<Rightarrow> pyfloat"

fun exact_add :: "pyfloat \<Rightarrow> pyfloat \<Rightarrow> pyfloat" where
  "exact_add NaN b = NaN"
| "exact_add a NaN = NaN"
| "exact_add (Fin x) (Fin y) = Fin (x + y)"
| "exact_add PInf NInf = NaN"
| "exact_add NInf PInf = NaN"
| "exact_add PInf b = PInf"
| "exact_add a PInf = PInf"
| "exact_add NInf b = NInf"
| "exact_add a NInf = NInf"

fun exact_mul :: "pyfloat \<Rightarrow> pyfloat \<Rightarrow> pyfloat" where
  "exact_mul NaN b = NaN"
| "exact_mul a NaN = NaN"
| "exact_mul (Fin x) (Fin y) = Fin (x * y)"
| "exact_mul (Fin x) PInf = (if x = 0 then NaN else if 0 < x then PInf else NInf)"
| "exact_mul (Fin x) NInf = (if x = 0 then NaN else if 0 < x then NInf else PInf)"
| "exact_mul PInf (Fin y) = (if y = 0 then NaN else if 0 < y then PInf else NInf)"
| "exact_mul NInf (Fin y) = (if y = 0 then NaN else if 0 < y then NInf else PInf)"
| "exact_mul PInf PInf = PInf"
| "exact_mul PInf NInf = NInf"
| "exact_mul NInf PInf = NInf"
| "exact_mul NInf NInf = PInf"

text \<open>Division by a divisor that is not zero; \<open>pf_truediv\<close> below raises on zero first.\<close>

fun exact_div :: "pyfloat \<Rightarrow> pyfloat \<Rightarrow> pyfloat" where
  "exact_div NaN b = NaN"
| "exact_div a NaN = NaN"
| "exact_div (Fin x) (Fin y) = Fin (x / y)"
| "exact_div (Fin x) b = Fin 0"
| "exact_div PInf (Fin y) = (if 0 < y then PInf else NInf)"
| "exact_div NInf (Fin y) = (if 0 < y then NInf else PInf)"
| "exact_div a b = NaN"

definition exact_arith :: float_arith where
  "exact_arith =
     \<lparr> fl_of_int = (\<lambda>k. Fin (of_int k)),
       fl_add = exact_add,
       fl_mul = exact_mul,
       fl_div = exact_div \<rparr>"

text \<open>Python's \<^verbatim>\<open>/\<close> on floats: a zero divisor raises, whatever the dividend.\<close>

definition pf_truediv :: "float_arith \<Rightarrow> pyfloat \<Rightarrow> pyfloat \<Rightarrow> py_error + pyfloat" where
  "pf_truediv fl a b = (if b = Fin 0 then Inl ZeroDivisionError else Inr (fl_div fl a b))"

record float_frequency_result =
  ff_frequency :: pyfloat
  ff_amplitude :: pyfloat
  ff_time_ms :: pyfloat
  ff_energy :: pyfloat
  ff_k1 :: int
  ff_k2 :: int
  ff_k1_k2_product :: int
  ff_k_index :: int
  ff_is_valid :: bool
  ff_attempts :: nat

definition raw_frequency_float ::
  "float_arith \<Rightarrow> pyfloat \<Rightarrow> int \<Rightarrow> pyfloat \<Rightarrow> int \<Rightarrow> pyfloat \<Rightarrow> pyfloat"
where
  "raw_frequency_float fl amplitude k1 energy k2 time_ms =
     (case pf_truediv fl
             (fl_add fl (fl_mul fl amplitude (fl_of_int fl k1))
                        (fl_mul fl energy (fl_of_int fl k2)))
             time_ms of
        Inl e \<Rightarrow> Fin f0
      | Inr q \<Rightarrow> fl_add fl (Fin f0) q)"

definition band_correction_float :: "pyfloat \<Rightarrow> pyfloat" where
  "band_correction_float frequency =
     (if pf_less frequency (Fin band_min) then Fin band_min
      else if pf_less (Fin band_max) frequency then Fin band_max
      else frequency)"

function calculate_frequency_float_loop ::
  "float_arith \<Rightarrow> state \<Rightarrow> pyfloat \<Rightarrow> pyfloat \<Rightarrow> pyfloat \<Rightarrow> nat \<Rightarrow> nat \<Rightarrow> int
     \<Rightarrow> py_error + (float_frequency_result \<times> state)"
where
  "calculate_frequency_float_loop fl s amplitude time_ms energy attempts max_attempts
       original_k_index =
     (if attempts < max_attempts then
        (case get_k1_k2_values s of
           Inl e \<Rightarrow> Inl e
         | Inr (k1, k2) \<Rightarrow>
             (let frequency =
                    band_correction_float (raw_frequency_float fl amplitude k1 energy k2 time_ms)
              in if pf_le (Fin band_min) frequency \<and> pf_le frequency (Fin band_max) then
                   Inr (\<lparr> ff_frequency = frequency,
                          ff_amplitude = amplitude,
                          ff_time_ms = time_ms,
                          ff_energy = energy,
                          ff_k1 = k1,
                          ff_k2 = k2,
                          ff_k1_k2_product = k1 * k2,
                          ff_k_index = current_k_index s,
                          ff_is_valid = True,
                          ff_attempts = attempts + 1 \<rparr>, s)
                 else
                   (case py_mod (current_k_index s + 1) (int (length (k1_k2_list s))) of
                      Inl e \<Rightarrow> Inl e
                    | Inr i \<Rightarrow>
                        calculate_frequency_float_loop fl (s\<lparr>current_k_index := i\<rparr>)
                          amplitude time_ms energy (attempts + 1) max_attempts original_k_index)))
      else
        (let s' = s\<lparr>current_k_index := original_k_index\<rparr>
         in Inr (\<lparr> ff_frequency = Fin f0,
                   ff_amplitude = amplitude,
                   ff_time_ms = time_ms,
                   ff_energy = energy,
                   ff_k1 = 10,
                   ff_k2 = 100,
                   ff_k1_k2_product = 1000,
                   ff_k_index = current_k_index s',
                   ff_is_valid = False,
                   ff_attempts = max_attempts \<rparr>, s')))"
  by pat_completeness auto
termination
  by (relation "measure (\<lambda>(fl, s, amplitude, time_ms, energy, attempts, max_attempts,
        original_k_index). max_attempts - attempts)") auto

definition calculate_frequency_float ::
  "float_arith \<Rightarrow> state \<Rightarrow> pyfloat \<Rightarrow> pyfloat \<Rightarrow> pyfloat
     \<Rightarrow> py_error + (float_frequency_result \<times> state)"
where
  "calculate_frequency_float fl s amplitude time_ms energy =
     (let time_ms = (if pf_le time_ms (Fin 0) then Fin t_hop else time_ms)
      in calculate_frequency_float_loop fl s amplitude time_ms energy
           0 (length (k1_k2_list s)) (current_k_index s))"

text \<open>A result of the model on reals, read as a result on floats.\<close>

definition float_result :: "frequency_result \<Rightarrow> float_frequency_result" where
  "float_result r =
     \<lparr> ff_frequency = Fin (fr_frequency r),
       ff_amplitude = Fin (fr_amplitude r),
       ff_time_ms = Fin (fr_time_ms r),
       ff_energy = Fin (fr_energy r),
       ff_k1 = fr_k1 r,
       ff_k2 = fr_k2 r,
       ff_k1_k2_product = fr_k1_k2_product r,
       ff_k_index = fr_k_index r,
       ff_is_valid = fr_is_valid r,
       ff_attempts = fr_attempts r \<rparr>"

section \<open>Signal generation, measurement and validation\<close>

record signal_parameters =
  sp_amplitude :: real
  sp_time_ms :: real
  sp_energy :: real
  sp_generation_method :: string

text \<open>
  \<^verbatim>\<open>generate_signal_parameters\<close>: \<open>r\<close> is the \<^verbatim>\<open>random()\<close> value behind
  \<^verbatim>\<open>random.uniform(-0.15, 0.15)\<close>.
\<close>

definition generate_signal_parameters :: "state \<Rightarrow> real \<Rightarrow> signal_parameters" where
  "generate_signal_parameters s r =
     (let amplitude = nominal_amplitude + uniform (- 0.15) 0.15 r;
          time_ms = t_hop;
          energy = amplitude ^ 2 * time_ms
      in \<lparr> sp_amplitude = amplitude,
           sp_time_ms = time_ms,
           sp_energy = energy,
           sp_generation_method = ''sender_generated'' \<rparr>)"

definition measure_signal_parameters :: "state \<Rightarrow> real \<Rightarrow> real \<Rightarrow> real \<Rightarrow> signal_parameters" where
  "measure_signal_parameters s received_amplitude received_energy received_time =
     \<lparr> sp_amplitude = received_amplitude,
       sp_time_ms = received_time,
       sp_energy = received_energy,
       sp_generation_method = ''receiver_measured'' \<rparr>"

record validation_result =
  vr_is_valid :: bool
  vr_is_valid_amplitude :: bool
  vr_is_valid_time :: bool
  vr_amplitude :: real
  vr_time_ms :: real
  vr_min_allowed_amplitude :: real
  vr_max_allowed_amplitude :: real
  vr_min_allowed_time :: real
  vr_max_allowed_time :: real
  vr_tolerance_amplitude :: real
  vr_tolerance_time :: real

text \<open>
  \<^verbatim>\<open>validate_signal\<close> assigns no attribute of \<^verbatim>\<open>self\<close>. The model returns the state
  after the call next to the result, so that this is a statement about the model.
\<close>

definition validate_signal :: "state \<Rightarrow> real \<Rightarrow> real \<Rightarrow> validation_result \<times> state" where
  "validate_signal s amplitude time_ms =
     (let min_amplitude = nominal_amplitude - amplitude_tolerance;
          max_amplitude = nominal_amplitude + amplitude_tolerance;
          min_time = t_hop - time_tolerance;
          max_time = t_hop + time_tolerance;
          is_valid_amplitude = (min_amplitude \<le> amplitude \<and> amplitude \<le> max_amplitude);
          is_valid_time = (min_time \<le> time_ms \<and> time_ms \<le> max_time);
          is_valid = (is_valid_amplitude \<and> is_valid_time)
      in (\<lparr> vr_is_valid = is_valid,
             vr_is_valid_amplitude = is_valid_amplitude,
             vr_is_valid_time = is_valid_time,
             vr_amplitude = amplitude,
             vr_time_ms = time_ms,
             vr_min_allowed_amplitude = min_amplitude,
             vr_max_allowed_amplitude = max_amplitude,
             vr_min_allowed_time = min_time,
             vr_max_allowed_time = max_time,
             vr_tolerance_amplitude = amplitude_tolerance,
             vr_tolerance_time = time_tolerance \<rparr>, s))"

section \<open>Hop state machine\<close>

text \<open>
  The two dictionaries \<^verbatim>\<open>sync_check\<close> can return. The last field of \<open>Sync_needed\<close> is the
  number printed in the message, \<^verbatim>\<open>hop_counter // 100\<close>.
\<close>

datatype sync_info =
    Sync_needed int int real int int
  | Sync_not_needed int

fun sync_needed :: "sync_info \<Rightarrow> bool" where
  "sync_needed (Sync_needed hop_count reference_freq test_amplitude test_duration number) = True"
| "sync_needed (Sync_not_needed hop_count) = False"

definition sync_check :: "state \<Rightarrow> sync_info" where
  "sync_check s =
     (if hop_counter s mod 100 = 0 \<and> hop_counter s > 0
      then Sync_needed (hop_counter s) 2750 nominal_amplitude 5 (hop_counter s div 100)
      else Sync_not_needed (hop_counter s))"

record next_hop_result =
  nh_hop_counter :: int
  nh_k_index :: int
  nh_next_k1_k2 :: int

definition next_hop :: "state \<Rightarrow> py_error + (next_hop_result \<times> state)" where
  "next_hop s =
     (let s = s\<lparr>hop_counter := hop_counter s + 1\<rparr>
      in case py_mod (current_k_index s + 1) (int (length (k1_k2_list s))) of
           Inl e \<Rightarrow> Inl e
         | Inr i \<Rightarrow>
             (let s = s\<lparr>current_k_index := i\<rparr>
              in case py_mod (current_k_index s) (int (length (k1_k2_list s))) of
                   Inl e \<Rightarrow> Inl e
                 | Inr j \<Rightarrow>
                     Inr (\<lparr> nh_hop_counter = hop_counter s,
                            nh_k_index = current_k_index s,
                            nh_next_k1_k2 = k1_k2_list s ! nat j \<rparr>, s)))"

section \<open>Simulation driver\<close>

text \<open>
  A sender result is the dictionary \<^verbatim>\<open>{'hop_number': ..., **params, **freq_result,
  'sync_info': ...}\<close>. The model keeps the two merged dictionaries apart; a key that both
  have (\<^verbatim>\<open>'amplitude'\<close>, \<^verbatim>\<open>'time_ms'\<close>, \<^verbatim>\<open>'energy'\<close>) reads the later one, \<^verbatim>\<open>freq_result\<close>.
\<close>

record sender_record =
  sr_hop_number :: int
  sr_operation :: string
  sr_params :: signal_parameters
  sr_freq_result :: frequency_result
  sr_sync_info :: sync_info

definition sender_amplitude :: "sender_record \<Rightarrow> real" where
  "sender_amplitude sender_data = fr_amplitude (sr_freq_result sender_data)"

definition sender_time_ms :: "sender_record \<Rightarrow> real" where
  "sender_time_ms sender_data = fr_time_ms (sr_freq_result sender_data)"

definition sender_energy :: "sender_record \<Rightarrow> real" where
  "sender_energy sender_data = fr_energy (sr_freq_result sender_data)"

definition sender_frequency :: "sender_record \<Rightarrow> real" where
  "sender_frequency sender_data = fr_frequency (sr_freq_result sender_data)"

definition sender_is_valid :: "sender_record \<Rightarrow> bool" where
  "sender_is_valid sender_data = fr_is_valid (sr_freq_result sender_data)"

definition sender_k_index :: "sender_record \<Rightarrow> int" where
  "sender_k_index sender_data = fr_k_index (sr_freq_result sender_data)"

text \<open>One iteration of the loop of \<^verbatim>\<open>simulate_sender_operation\<close>.\<close>

definition sender_hop :: "state \<Rightarrow> nat \<Rightarrow> real \<Rightarrow> py_error + (sender_record \<times> state)" where
  "sender_hop s i r =
     (let params = generate_signal_parameters s r
      in case calculate_frequency s (sp_amplitude params) (sp_time_ms params) (sp_energy params) of
           Inl e \<Rightarrow> Inl e
         | Inr (freq_result, s) \<Rightarrow>
             (let sync_result = sync_check s;
                  result = \<lparr> sr_hop_number = int i + 1,
                             sr_operation = ''sender'',
                             sr_params = params,
                             sr_freq_result = freq_result,
                             sr_sync_info = sync_result \<rparr>
              in case next_hop s of
                   Inl e \<Rightarrow> Inl e
                 | Inr (info, s) \<Rightarrow> Inr (result, s)))"

text \<open>
  \<^verbatim>\<open>for i in range(hop_count)\<close>: the remaining values of \<open>i\<close>, the results appended so
  far; \<open>rnd i\<close> is the \<^verbatim>\<open>random()\<close> value drawn in iteration \<open>i\<close>.
\<close>

fun sender_loop ::
  "state \<Rightarrow> (nat \<Rightarrow> real) \<Rightarrow> nat list \<Rightarrow> sender_record list \<Rightarrow> py_error + (sender_record list \<times> state)"
where
  "sender_loop s rnd [] results = Inr (results, s)"
| "sender_loop s rnd (i # rest) results =
     (case sender_hop s i (rnd i) of
        Inl e \<Rightarrow> Inl e
      | Inr (result, s') \<Rightarrow> sender_loop s' rnd rest (results @ [result]))"

definition simulate_sender_operation ::
  "state \<Rightarrow> int \<Rightarrow> (nat \<Rightarrow> real) \<Rightarrow> py_error + (sender_record list \<times> state)"
where
  "simulate_sender_operation s hop_count rnd = sender_loop s rnd [0..<nat hop_count] []"

text \<open>
  A receiver result. \<open>Not_computed\<close> is the dictionary \<^verbatim>\<open>{'frequency': 0, 'is_valid': False}\<close>
  of a rejected hop, \<open>Infinity\<close> its \<^verbatim>\<open>float('inf')\<close>.
\<close>

datatype receiver_frequency = Computed frequency_result | Not_computed

datatype frequency_difference = Finite real | Infinity

record receiver_record =
  rr_hop_number :: int
  rr_operation :: string
  rr_original_data :: sender_record
  rr_measured :: signal_parameters
  rr_validation :: validation_result
  rr_freq_result :: receiver_frequency
  rr_frequency_difference :: frequency_difference
  rr_is_match :: bool
  rr_sync_info :: sync_info

text \<open>
  One iteration of the loop of \<^verbatim>\<open>simulate_receiver_operation\<close>: \<open>r_noise\<close> and \<open>r_time\<close>
  are the \<^verbatim>\<open>random()\<close> values behind \<^verbatim>\<open>uniform(-noise_level, noise_level)\<close> and
  \<^verbatim>\<open>uniform(-0.05, 0.05)\<close>.
\<close>

definition receiver_hop ::
  "state \<Rightarrow> nat \<Rightarrow> sender_record \<Rightarrow> real \<Rightarrow> real \<Rightarrow> real \<Rightarrow> py_error + (receiver_record \<times> state)"
where
  "receiver_hop s i sender_data noise_level r_noise r_time =
     (let noise_factor = 1 + uniform (- noise_level) noise_level r_noise;
          received_amplitude = sender_amplitude sender_data * noise_factor;
          received_energy = sender_energy sender_data * noise_factor;
          received_time = sender_time_ms sender_data + uniform (- 0.05) 0.05 r_time;
          measured_params =
            measure_signal_parameters s received_amplitude received_energy received_time;
          (validation, s) =
            validate_signal s (sp_amplitude measured_params) (sp_time_ms measured_params)
      in case (if vr_is_valid validation then
                 (case calculate_frequency s (sp_amplitude measured_params)
                         (sp_time_ms measured_params) (sp_energy measured_params) of
                    Inl e \<Rightarrow> Inl e
                  | Inr (freq_result, s) \<Rightarrow>
                      (let freq_difference =
                             \<bar>fr_frequency freq_result - sender_frequency sender_data\<bar>;
                           is_match = (freq_difference < 40.0)
                       in Inr (Computed freq_result, Finite freq_difference, is_match, s)))
               else Inr (Not_computed, Infinity, False, s)) of
           Inl e \<Rightarrow> Inl e
         | Inr (freq_result, freq_difference, is_match, s) \<Rightarrow>
             (let sync_result = sync_check s;
                  result = \<lparr> rr_hop_number = int i + 1,
                             rr_operation = ''receiver'',
                             rr_original_data = sender_data,
                             rr_measured = measured_params,
                             rr_validation = validation,
                             rr_freq_result = freq_result,
                             rr_frequency_difference = freq_difference,
                             rr_is_match = is_match,
                             rr_sync_info = sync_result \<rparr>
              in case next_hop s of
                   Inl e \<Rightarrow> Inl e
                 | Inr (info, s) \<Rightarrow> Inr (result, s)))"

text \<open>
  \<^verbatim>\<open>for i, sender_data in enumerate(sender_results)\<close>: \<open>i\<close> is the index of the head of
  the remaining list. Iteration \<open>i\<close> draws \<open>rnd (2 * i)\<close> and then \<open>rnd (2 * i + 1)\<close>.
\<close>

fun receiver_loop ::
  "state \<Rightarrow> real \<Rightarrow> (nat \<Rightarrow> real) \<Rightarrow> nat \<Rightarrow> sender_record list \<Rightarrow> receiver_record list
     \<Rightarrow> py_error + (receiver_record list \<times> state)"
where
  "receiver_loop s noise_level rnd i [] results = Inr (results, s)"
| "receiver_loop s noise_level rnd i (sender_data # rest) results =
     (case receiver_hop s i sender_data noise_level (rnd (2 * i)) (rnd (2 * i + 1)) of
        Inl e \<Rightarrow> Inl e
      | Inr (result, s') \<Rightarrow> receiver_loop s' noise_level rnd (i + 1) rest (results @ [result]))"

definition simulate_receiver_operation ::
  "state \<Rightarrow> sender_record list \<Rightarrow> real \<Rightarrow> (nat \<Rightarrow> real)
     \<Rightarrow> py_error + (receiver_record list \<times> state)"
where
  "simulate_receiver_operation s sender_results noise_level rnd =
     (let s = s\<lparr>current_k_index := 0\<rparr>;
          s = s\<lparr>hop_counter := 0\<rparr>
      in receiver_loop s noise_level rnd 0 sender_results [])"

text \<open>
  The two calls of \<^verbatim>\<open>main\<close> on one instance: the sender's run, then the receiver's run
  over the sender's results. The hop count and the noise level, constants of \<^verbatim>\<open>main\<close>, are
  arguments here.
\<close>

definition run_simulation ::
  "state \<Rightarrow> int \<Rightarrow> (nat \<Rightarrow> real) \<Rightarrow> real \<Rightarrow> (nat \<Rightarrow> real)
     \<Rightarrow> py_error + (sender_record list \<times> receiver_record list \<times> state)"
where
  "run_simulation algorithm hop_count rnd_sender noise_level rnd_receiver =
     (case simulate_sender_operation algorithm hop_count rnd_sender of
        Inl e \<Rightarrow> Inl e
      | Inr (sender_results, algorithm) \<Rightarrow>
          (case simulate_receiver_operation algorithm sender_results noise_level rnd_receiver of
             Inl e \<Rightarrow> Inl e
           | Inr (receiver_results, algorithm) \<Rightarrow>
               Inr (sender_results, receiver_results, algorithm)))"

text \<open>\<^verbatim>\<open>freq_result['frequency']\<close> of a receiver result, for either dictionary.\<close>

fun receiver_frequency_value :: "receiver_frequency \<Rightarrow> real" where
  "receiver_frequency_value (Computed freq_result) = fr_frequency freq_result"
| "receiver_frequency_value Not_computed = 0"

section \<open>Statistics\<close>

text \<open>
  Python's \<^verbatim>\<open>min\<close> and \<^verbatim>\<open>max\<close> of a list raise \<^verbatim>\<open>ValueError\<close> on an empty one.
\<close>

definition py_min :: "real list \<Rightarrow> py_error + real" where
  "py_min xs = (case xs of [] \<Rightarrow> Inl ValueError | y # ys \<Rightarrow> Inr (fold min ys y))"

definition py_max :: "real list \<Rightarrow> py_error + real" where
  "py_max xs = (case xs of [] \<Rightarrow> Inl ValueError | y # ys \<Rightarrow> Inr (fold max ys y))"

text \<open>Sequencing of two computations that can raise.\<close>

definition py_bind :: "py_error + 'a \<Rightarrow> ('a \<Rightarrow> py_error + 'b) \<Rightarrow> py_error + 'b" where
  "py_bind m f = (case m of Inl e \<Rightarrow> Inl e | Inr v \<Rightarrow> f v)"

record sender_stats =
  total_hops :: nat
  valid_hops :: nat
  avg_frequency :: real
  min_frequency :: real
  max_frequency :: real
  frequency_range :: real

record receiver_stats =
  total_receptions :: nat
  valid_receptions :: nat
  successful_matches :: nat
  success_rate :: real
  validation_rate :: real
  noise_percentage :: real
  estimated_snr_db :: real

record statistics =
  sender :: sender_stats
  receiver :: receiver_stats

text \<open>
  \<^verbatim>\<open>calculate_statistics\<close>. Each conditional expression \<^verbatim>\<open>X if xs else 0\<close> evaluates \<open>X\<close>
  only on a non-empty list; the entries are evaluated in the order of the source.
\<close>

definition calculate_statistics ::
  "sender_record list \<Rightarrow> receiver_record list \<Rightarrow> py_error + statistics"
where
  "calculate_statistics sender_results receiver_results =
     (let sender_frequencies = map sender_frequency (filter sender_is_valid sender_results)
      in
      py_bind (if sender_frequencies \<noteq> []
               then py_truediv (sum_list sender_frequencies) (real (length sender_frequencies))
               else Inr 0) (\<lambda>avg.
      py_bind (if sender_frequencies \<noteq> [] then py_min sender_frequencies else Inr 0) (\<lambda>mn.
      py_bind (if sender_frequencies \<noteq> [] then py_max sender_frequencies else Inr 0) (\<lambda>mx.
      py_bind (if sender_frequencies \<noteq> []
               then py_bind (py_max sender_frequencies) (\<lambda>a.
                    py_bind (py_min sender_frequencies) (\<lambda>b. Inr (a - b)))
               else Inr 0) (\<lambda>rng.
      let sender_stats = \<lparr> total_hops = length sender_results,
                           valid_hops = length sender_frequencies,
                           avg_frequency = avg,
                           min_frequency = mn,
                           max_frequency = mx,
                           frequency_range = rng \<rparr>;
          valid_receptions = filter (\<lambda>r. vr_is_valid (rr_validation r)) receiver_results;
          successful_matches = filter rr_is_match valid_receptions;
          noise_percentage = 0.99;
          estimated_snr = 10 * log 10 (1 / (noise_percentage / 100))
      in
      py_bind (if receiver_results \<noteq> []
               then py_bind (py_truediv (real (length successful_matches))
                               (real (length receiver_results))) (\<lambda>q. Inr (q * 100))
               else Inr 0) (\<lambda>success_rate.
      py_bind (if receiver_results \<noteq> []
               then py_bind (py_truediv (real (length valid_receptions))
                               (real (length receiver_results))) (\<lambda>q. Inr (q * 100))
               else Inr 0) (\<lambda>validation_rate.
      Inr \<lparr> sender = sender_stats,
            receiver = \<lparr> total_receptions = length receiver_results,
                         valid_receptions = length valid_receptions,
                         successful_matches = length successful_matches,
                         success_rate = success_rate,
                         validation_rate = validation_rate,
                         noise_percentage = noise_percentage,
                         estimated_snr_db = estimated_snr \<rparr> \<rparr>)))))))"

section \<open>The instance of the driver\<close>

text \<open>
  \<^verbatim>\<open>main\<close> constructs \<^verbatim>\<open>SecureFHSSAlgorithm(sync_key=12345)\<close>. The five values below are
  the draws CPython's generator makes for \<^verbatim>\<open>randint(1000, 3000)\<close> after
  \<^verbatim>\<open>random.seed(12345)\<close>, in the order drawn. They are a fact about Python's library, used
  here for concrete evaluations only; every general statement below is about an arbitrary
  sequence of draws.
\<close>

definition key_12345_randint :: "nat \<Rightarrow> int" where
  "key_12345_randint i = [1853, 2500, 1020, 2679, 2690] ! i"

definition algorithm_12345 :: state where
  "algorithm_12345 = init 12345 key_12345_randint"

text \<open>
  Two constant sequences of \<^verbatim>\<open>random()\<close> values: the middle of the range, for which
  \<^verbatim>\<open>uniform(-a, a)\<close> is 0, and its lower end, for which \<^verbatim>\<open>uniform(-a, a)\<close> is \<open>-a\<close>.
\<close>

definition draws_half :: "nat \<Rightarrow> real" where
  "draws_half i = 1 / 2"

definition draws_zero :: "nat \<Rightarrow> real" where
  "draws_zero i = 0"

text \<open>
  Three results of the shape the driver produces, for concrete evaluations of the
  statistics: the sender's first hop at amplitude 3.0, a receiver result that accepts it
  unchanged, and a receiver result that rejects it at a measured amplitude of 5.0.
\<close>

definition sample_frequency_result :: frequency_result where
  "sample_frequency_result =
     \<lparr> fr_frequency = 2915, fr_amplitude = 3, fr_time_ms = 2, fr_energy = 18,
       fr_k1 = 10, fr_k2 = 100, fr_k1_k2_product = 1000, fr_k_index = 0,
       fr_is_valid = True, fr_attempts = 1 \<rparr>"

definition sample_sender_record :: sender_record where
  "sample_sender_record =
     \<lparr> sr_hop_number = 1,
       sr_operation = ''sender'',
       sr_params = \<lparr> sp_amplitude = 3, sp_time_ms = 2, sp_energy = 18,
                     sp_generation_method = ''sender_generated'' \<rparr>,
       sr_freq_result = sample_frequency_result,
       sr_sync_info = Sync_not_needed 0 \<rparr>"

definition sample_accepted_record :: receiver_record where
  "sample_accepted_record =
     \<lparr> rr_hop_number = 1,
       rr_operation = ''receiver'',
       rr_original_data = sample_sender_record,
       rr_measured = \<lparr> sp_amplitude = 3, sp_time_ms = 2, sp_energy = 18,
                       sp_generation_method = ''receiver_measured'' \<rparr>,
       rr_validation = fst (validate_signal algorithm_12345 3 2),
       rr_freq_result = Computed sample_frequency_result,
       rr_frequency_difference = Finite 0,
       rr_is_match = True,
       rr_sync_info = Sync_not_needed 0 \<rparr>"

definition sample_rejected_record :: receiver_record where
  "sample_rejected_record =
     \<lparr> rr_hop_number = 2,
       rr_operation = ''receiver'',
       rr_original_data = sample_sender_record,
       rr_measured = \<lparr> sp_amplitude = 5, sp_time_ms = 2, sp_energy = 30,
                       sp_generation_method = ''receiver_measured'' \<rparr>,
       rr_validation = fst (validate_signal algorithm_12345 5 2),
       rr_freq_result = Not_computed,
       rr_frequency_difference = Infinity,
       rr_is_match = False,
       rr_sync_info = Sync_not_needed 1 \<rparr>"

section \<open>Properties of the frequency calculator\<close>

subsection \<open>Auxiliary facts\<close>

lemma band_correction_in_band:
  "band_min \<le> band_correction frequency \<and> band_correction frequency \<le> band_max"
  by (simp add: band_correction_def band_min_def band_max_def)

lemma get_k1_k2_values_nonempty:
  "k1_k2_list s \<noteq> [] \<Longrightarrow>
   get_k1_k2_values s =
     Inr ((k1_k2_list s ! nat (current_k_index s mod int (length (k1_k2_list s)))) div k2_constant,
          k2_constant)"
  by (simp add: get_k1_k2_values_def py_mod_def)

lemma get_k1_k2_values_empty:
  "k1_k2_list s = [] \<Longrightarrow> get_k1_k2_values s = Inl ZeroDivisionError"
  by (simp add: get_k1_k2_values_def py_mod_def)

text \<open>
  An iteration of the loop that is entered returns: the test \<^verbatim>\<open>band_min <= frequency <=
  band_max\<close> reads the corrected frequency.
\<close>

lemma calculate_frequency_loop_accepts:
  assumes "attempts < max_attempts" and "get_k1_k2_values s = Inr (k1, k2)"
  shows "calculate_frequency_loop s amplitude time_ms energy attempts max_attempts original_k_index =
     Inr (\<lparr> fr_frequency = band_correction (raw_frequency amplitude k1 energy k2 time_ms),
            fr_amplitude = amplitude,
            fr_time_ms = time_ms,
            fr_energy = energy,
            fr_k1 = k1,
            fr_k2 = k2,
            fr_k1_k2_product = k1 * k2,
            fr_k_index = current_k_index s,
            fr_is_valid = True,
            fr_attempts = attempts + 1 \<rparr>, s)"
  using assms band_correction_in_band [of "raw_frequency amplitude k1 energy k2 time_ms"]
  by (subst calculate_frequency_loop.simps) (simp add: Let_def)

lemma calculate_frequency_loop_exhausted:
  assumes "\<not> attempts < max_attempts"
  shows "calculate_frequency_loop s amplitude time_ms energy attempts max_attempts original_k_index =
     Inr (\<lparr> fr_frequency = f0,
            fr_amplitude = amplitude,
            fr_time_ms = time_ms,
            fr_energy = energy,
            fr_k1 = 10,
            fr_k2 = 100,
            fr_k1_k2_product = 1000,
            fr_k_index = original_k_index,
            fr_is_valid = False,
            fr_attempts = max_attempts \<rparr>, s\<lparr>current_k_index := original_k_index\<rparr>)"
  using assms
  by (subst calculate_frequency_loop.simps) (simp add: Let_def)

lemma calculate_frequency_nonempty:
  assumes "get_k1_k2_values s = Inr (k1, k2)"
  shows "calculate_frequency s amplitude time_ms energy =
     Inr (\<lparr> fr_frequency =
              band_correction
                (raw_frequency amplitude k1 energy k2 (if time_ms \<le> 0 then t_hop else time_ms)),
            fr_amplitude = amplitude,
            fr_time_ms = (if time_ms \<le> 0 then t_hop else time_ms),
            fr_energy = energy,
            fr_k1 = k1,
            fr_k2 = k2,
            fr_k1_k2_product = k1 * k2,
            fr_k_index = current_k_index s,
            fr_is_valid = True,
            fr_attempts = 1 \<rparr>, s)"
proof -
  have "k1_k2_list s \<noteq> []"
    using assms get_k1_k2_values_empty [of s] by auto
  then have "0 < length (k1_k2_list s)" by simp
  from calculate_frequency_loop_accepts [OF this assms]
  show ?thesis by (simp add: calculate_frequency_def Let_def)
qed

lemma calculate_frequency_empty:
  assumes "k1_k2_list s = []"
  shows "calculate_frequency s amplitude time_ms energy =
     Inr (\<lparr> fr_frequency = f0,
            fr_amplitude = amplitude,
            fr_time_ms = (if time_ms \<le> 0 then t_hop else time_ms),
            fr_energy = energy,
            fr_k1 = 10,
            fr_k2 = 100,
            fr_k1_k2_product = 1000,
            fr_k_index = current_k_index s,
            fr_is_valid = False,
            fr_attempts = 0 \<rparr>, s)"
  using assms calculate_frequency_loop_exhausted [of 0 "length (k1_k2_list s)" s]
  by (simp add: calculate_frequency_def Let_def)

lemma k1_k2_list_algorithm_12345:
  "k1_k2_list algorithm_12345 = [1020, 1853, 2500, 2679, 2690]"
  by (simp add: algorithm_12345_def init_def key_12345_randint_def upt_rec)

lemma get_k1_k2_values_algorithm_12345:
  assumes "0 \<le> i" and "i < 5"
  shows "get_k1_k2_values (algorithm_12345\<lparr>current_k_index := i, hop_counter := h\<rparr>) =
     Inr ([10, 18, 25, 26, 26] ! nat i, 100)"
proof -
  from assms have "i = 0 \<or> i = 1 \<or> i = 2 \<or> i = 3 \<or> i = 4" by arith
  then show ?thesis
    by (auto simp add: get_k1_k2_values_def py_mod_def k1_k2_list_algorithm_12345 k2_constant_def)
qed

lemma current_k_index_algorithm_12345: "current_k_index algorithm_12345 = 0"
  by (simp add: algorithm_12345_def init_def)

lemma get_k1_k2_values_fresh_12345: "get_k1_k2_values algorithm_12345 = Inr (10, 100)"
  by (simp add: get_k1_k2_values_def py_mod_def k1_k2_list_algorithm_12345 k2_constant_def
      current_k_index_algorithm_12345)

subsection \<open>Retry on an out-of-band frequency\<close>

text \<open>
  Claim C1. The claim: the loop moves on to the next coefficient pair when the unclamped
  frequency of the current pair lies outside \<open>[2000, 4000]\<close>, and accepts the first pair
  whose unclamped frequency lies inside. The code at an input where the claim and the code
  part: the instance of key 12345 after four hops (index 4, \<open>k1 = 26\<close>), amplitude 100,
  time 2, energy 18. The unclamped frequency of the current pair is 4200, outside the band;
  the next pair (index 0, \<open>k1 = 10\<close>) gives 3400, inside the band. The code returns on the
  first iteration with the corrected frequency 4000, the pair of index 4 and an unchanged
  index.
\<close>

theorem calculate_frequency_out_of_band_not_retried:
  "calculate_frequency (algorithm_12345\<lparr>current_k_index := 4, hop_counter := 4\<rparr>) 100 2 18 =
     Inr (\<lparr> fr_frequency = 4000, fr_amplitude = 100, fr_time_ms = 2, fr_energy = 18,
            fr_k1 = 26, fr_k2 = 100, fr_k1_k2_product = 2600, fr_k_index = 4,
            fr_is_valid = True, fr_attempts = 1 \<rparr>,
          algorithm_12345\<lparr>current_k_index := 4, hop_counter := 4\<rparr>)
   \<and> raw_frequency 100 26 18 100 2 = 4200
   \<and> get_k1_k2_values (algorithm_12345\<lparr>current_k_index := 0, hop_counter := 4\<rparr>) = Inr (10, 100)
   \<and> raw_frequency 100 10 18 100 2 = 3400"
proof -
  have pair:
    "get_k1_k2_values (algorithm_12345\<lparr>current_k_index := 4, hop_counter := 4\<rparr>) = Inr (26, 100)"
    using get_k1_k2_values_algorithm_12345 [of 4 4] by simp
  have raw: "raw_frequency 100 26 18 100 2 = 4200"
    by (simp add: raw_frequency_def py_truediv_def f0_def)
  have "calculate_frequency (algorithm_12345\<lparr>current_k_index := 4, hop_counter := 4\<rparr>) 100 2 18 =
     Inr (\<lparr> fr_frequency = 4000, fr_amplitude = 100, fr_time_ms = 2, fr_energy = 18,
            fr_k1 = 26, fr_k2 = 100, fr_k1_k2_product = 2600, fr_k_index = 4,
            fr_is_valid = True, fr_attempts = 1 \<rparr>,
          algorithm_12345\<lparr>current_k_index := 4, hop_counter := 4\<rparr>)"
    by (simp add: calculate_frequency_nonempty [OF pair] raw
        band_correction_def band_min_def band_max_def)
  moreover have
    "get_k1_k2_values (algorithm_12345\<lparr>current_k_index := 0, hop_counter := 4\<rparr>) = Inr (10, 100)"
    using get_k1_k2_values_algorithm_12345 [of 0 4] by simp
  moreover have "raw_frequency 100 10 18 100 2 = 3400"
    by (simp add: raw_frequency_def py_truediv_def f0_def)
  ultimately show ?thesis using raw by simp
qed

subsection \<open>The first iteration returns\<close>

text \<open>
  Facts of the model on floats: a frequency that is not NaN is in the band after the
  correction, so an iteration that is entered with such a frequency returns; NaN passes
  both tests of the correction unchanged and fails the band test, so a NaN frequency at
  every pair runs the loop to exhaustion.
\<close>

lemma band_correction_float_in_band:
  assumes "frequency \<noteq> NaN"
  shows "pf_le (Fin band_min) (band_correction_float frequency)
       \<and> pf_le (band_correction_float frequency) (Fin band_max)"
  using assms
  by (cases frequency) (simp_all add: band_correction_float_def band_min_def band_max_def)

lemma band_correction_float_nan:
  "band_correction_float NaN = NaN"
  by (simp add: band_correction_float_def)

lemma calculate_frequency_float_loop_accepts:
  assumes "attempts < max_attempts" and "get_k1_k2_values s = Inr (k1, k2)"
    and "raw_frequency_float fl amplitude k1 energy k2 time_ms \<noteq> NaN"
  shows "calculate_frequency_float_loop fl s amplitude time_ms energy attempts max_attempts
           original_k_index =
     Inr (\<lparr> ff_frequency =
              band_correction_float (raw_frequency_float fl amplitude k1 energy k2 time_ms),
            ff_amplitude = amplitude,
            ff_time_ms = time_ms,
            ff_energy = energy,
            ff_k1 = k1,
            ff_k2 = k2,
            ff_k1_k2_product = k1 * k2,
            ff_k_index = current_k_index s,
            ff_is_valid = True,
            ff_attempts = attempts + 1 \<rparr>, s)"
  using assms(1,2) band_correction_float_in_band [OF assms(3)]
  by (subst calculate_frequency_float_loop.simps) (simp add: Let_def)

lemma calculate_frequency_float_loop_exhausted:
  assumes "\<not> attempts < max_attempts"
  shows "calculate_frequency_float_loop fl s amplitude time_ms energy attempts max_attempts
           original_k_index =
     Inr (\<lparr> ff_frequency = Fin f0,
            ff_amplitude = amplitude,
            ff_time_ms = time_ms,
            ff_energy = energy,
            ff_k1 = 10,
            ff_k2 = 100,
            ff_k1_k2_product = 1000,
            ff_k_index = original_k_index,
            ff_is_valid = False,
            ff_attempts = max_attempts \<rparr>, s\<lparr>current_k_index := original_k_index\<rparr>)"
  using assms
  by (subst calculate_frequency_float_loop.simps) (simp add: Let_def)

text \<open>A NaN frequency at every pair: the loop runs to exhaustion.\<close>

lemma calculate_frequency_float_loop_nan:
  assumes "k1_k2_list s \<noteq> []"
    and "\<forall>k1 k2. raw_frequency_float fl amplitude k1 energy k2 time_ms = NaN"
    and "attempts \<le> max_attempts"
  shows "calculate_frequency_float_loop fl s amplitude time_ms energy attempts max_attempts
           original_k_index =
     Inr (\<lparr> ff_frequency = Fin f0,
            ff_amplitude = amplitude,
            ff_time_ms = time_ms,
            ff_energy = energy,
            ff_k1 = 10,
            ff_k2 = 100,
            ff_k1_k2_product = 1000,
            ff_k_index = original_k_index,
            ff_is_valid = False,
            ff_attempts = max_attempts \<rparr>, s\<lparr>current_k_index := original_k_index\<rparr>)"
  using assms
proof (induction "max_attempts - attempts" arbitrary: s attempts)
  case 0
  then have "\<not> attempts < max_attempts" by simp
  then show ?case by (rule calculate_frequency_float_loop_exhausted)
next
  case (Suc n)
  then have lt: "attempts < max_attempts" by simp
  let ?s' = "s\<lparr>current_k_index := (current_k_index s + 1) mod int (length (k1_k2_list s))\<rparr>"
  have ne': "k1_k2_list ?s' \<noteq> []" using Suc.prems(1) by simp
  have n: "n = max_attempts - (attempts + 1)" using Suc.hyps(2) by simp
  have le: "attempts + 1 \<le> max_attempts" using lt by simp
  have step: "calculate_frequency_float_loop fl s amplitude time_ms energy attempts max_attempts
           original_k_index =
      calculate_frequency_float_loop fl ?s' amplitude time_ms energy (attempts + 1) max_attempts
           original_k_index"
    using lt Suc.prems(1,2) get_k1_k2_values_nonempty [OF Suc.prems(1)]
    by (subst calculate_frequency_float_loop.simps)
       (simp add: Let_def band_correction_float_nan py_mod_def)
  show ?case
    unfolding step using Suc.hyps(1) [OF n ne' Suc.prems(2) le] by simp
qed


lemma calculate_frequency_float_nonempty:
  assumes "get_k1_k2_values s = Inr (k1, k2)"
    and "raw_frequency_float fl amplitude k1 energy k2
           (if pf_le time_ms (Fin 0) then Fin t_hop else time_ms) \<noteq> NaN"
  shows "calculate_frequency_float fl s amplitude time_ms energy =
     Inr (\<lparr> ff_frequency =
              band_correction_float
                (raw_frequency_float fl amplitude k1 energy k2
                   (if pf_le time_ms (Fin 0) then Fin t_hop else time_ms)),
            ff_amplitude = amplitude,
            ff_time_ms = (if pf_le time_ms (Fin 0) then Fin t_hop else time_ms),
            ff_energy = energy,
            ff_k1 = k1,
            ff_k2 = k2,
            ff_k1_k2_product = k1 * k2,
            ff_k_index = current_k_index s,
            ff_is_valid = True,
            ff_attempts = 1 \<rparr>, s)"
proof -
  have "k1_k2_list s \<noteq> []"
    using assms(1) get_k1_k2_values_empty [of s] by auto
  then have "0 < length (k1_k2_list s)" by simp
  from calculate_frequency_float_loop_accepts [OF this assms]
  show ?thesis by (simp add: calculate_frequency_float_def Let_def)
qed

lemma raw_frequency_float_exact:
  "raw_frequency_float exact_arith (Fin amplitude) k1 (Fin energy) k2 (Fin time_ms) =
     Fin (raw_frequency amplitude k1 energy k2 time_ms)"
  by (simp add: raw_frequency_float_def raw_frequency_def pf_truediv_def py_truediv_def
      exact_arith_def)

lemma band_correction_float_exact:
  "band_correction_float (Fin frequency) = Fin (band_correction frequency)"
  by (simp add: band_correction_float_def band_correction_def)

text \<open>
  On finite arguments and with exact arithmetic the model on floats is the model on reals.
\<close>

lemma calculate_frequency_float_exact:
  "calculate_frequency_float exact_arith s (Fin amplitude) (Fin time_ms) (Fin energy) =
     (case calculate_frequency s amplitude time_ms energy of
        Inl e \<Rightarrow> Inl e
      | Inr (freq_result, s') \<Rightarrow> Inr (float_result freq_result, s'))"
proof (cases "k1_k2_list s = []")
  case True
  have "calculate_frequency_float exact_arith s (Fin amplitude) (Fin time_ms) (Fin energy) =
     Inr (\<lparr> ff_frequency = Fin f0,
            ff_amplitude = Fin amplitude,
            ff_time_ms = Fin (if time_ms \<le> 0 then t_hop else time_ms),
            ff_energy = Fin energy,
            ff_k1 = 10,
            ff_k2 = 100,
            ff_k1_k2_product = 1000,
            ff_k_index = current_k_index s,
            ff_is_valid = False,
            ff_attempts = 0 \<rparr>, s)"
    using True
      calculate_frequency_float_loop_exhausted [of 0 "length (k1_k2_list s)" exact_arith s]
    by (simp add: calculate_frequency_float_def Let_def)
  then show ?thesis
    by (simp add: calculate_frequency_empty [OF True] float_result_def)
next
  case False
  note pair = get_k1_k2_values_nonempty [OF False]
  have guard: "(if pf_le (Fin time_ms) (Fin 0) then Fin t_hop else Fin time_ms) =
      Fin (if time_ms \<le> 0 then t_hop else time_ms)"
    by simp
  have "raw_frequency_float exact_arith (Fin amplitude)
          (k1_k2_list s ! nat (current_k_index s mod int (length (k1_k2_list s))) div k2_constant)
          (Fin energy) k2_constant
          (if pf_le (Fin time_ms) (Fin 0) then Fin t_hop else Fin time_ms) \<noteq> NaN"
    unfolding guard raw_frequency_float_exact by simp
  from calculate_frequency_float_nonempty [OF pair this]
  show ?thesis
    unfolding guard raw_frequency_float_exact band_correction_float_exact
    by (simp add: calculate_frequency_nonempty [OF pair] float_result_def)
qed

text \<open>
  Claim C2, as the code has it. On every state with a coefficient pair (the list is not
  empty; the constructor builds five entries and no method changes the list), for every
  float arithmetic and for every amplitude, time and energy, infinite ones included, for
  which the frequency computed from the current pair is not NaN, \<open>calculate_frequency\<close>
  returns from the first iteration of its loop: the attempt count is 1, the validity flag
  is true, the state after the call is the state before it (so \<open>current_k_index\<close> is
  unchanged), and the result is not the fallback result, whose validity flag is false.
\<close>

theorem calculate_frequency_float_first_iteration:
  assumes "get_k1_k2_values s = Inr (k1, k2)"
    and "raw_frequency_float fl amplitude k1 energy k2
           (if pf_le time_ms (Fin 0) then Fin t_hop else time_ms) \<noteq> NaN"
  shows "\<exists>freq_result.
           calculate_frequency_float fl s amplitude time_ms energy = Inr (freq_result, s)
         \<and> ff_attempts freq_result = 1
         \<and> ff_is_valid freq_result
         \<and> ff_k_index freq_result = current_k_index s"
  using calculate_frequency_float_nonempty [OF assms]
  by simp

theorem calculate_frequency_float_first_iteration_witness:
  "get_k1_k2_values algorithm_12345 = Inr (10, 100)
   \<and> raw_frequency_float exact_arith PInf 10 (Fin 18) 100
        (if pf_le (Fin 2) (Fin 0) then Fin t_hop else Fin 2) \<noteq> NaN
   \<and> (\<exists>freq_result.
         calculate_frequency_float exact_arith algorithm_12345 PInf (Fin 2) (Fin 18)
           = Inr (freq_result, algorithm_12345)
       \<and> ff_attempts freq_result = 1
       \<and> ff_is_valid freq_result
       \<and> ff_k_index freq_result = current_k_index algorithm_12345)"
proof -
  have raw: "raw_frequency_float exact_arith PInf 10 (Fin 18) 100
        (if pf_le (Fin 2) (Fin 0) then Fin t_hop else Fin 2) \<noteq> NaN"
    by (simp add: raw_frequency_float_def pf_truediv_def exact_arith_def)
  from calculate_frequency_float_first_iteration [OF get_k1_k2_values_fresh_12345 raw]
    get_k1_k2_values_fresh_12345 raw
  show ?thesis by simp
qed

text \<open>
  Claim C2 as stated, for every input, fails at a NaN amplitude: on the instance of key
  12345 with time 2 and energy 18 every pair gives a NaN frequency, the loop tries all
  five pairs, and the call returns the fallback result with validity false and five
  attempts, the index back at 0.
\<close>

theorem calculate_frequency_float_nan_fallback:
  "calculate_frequency_float exact_arith algorithm_12345 NaN (Fin 2) (Fin 18) =
     Inr (\<lparr> ff_frequency = Fin 2000, ff_amplitude = NaN, ff_time_ms = Fin 2, ff_energy = Fin 18,
            ff_k1 = 10, ff_k2 = 100, ff_k1_k2_product = 1000, ff_k_index = 0,
            ff_is_valid = False, ff_attempts = 5 \<rparr>, algorithm_12345)"
proof -
  have ne: "k1_k2_list algorithm_12345 \<noteq> []"
    by (simp add: k1_k2_list_algorithm_12345)
  have nan: "\<forall>k1 k2. raw_frequency_float exact_arith NaN k1 (Fin 18) k2 (Fin 2) = NaN"
    by (simp add: raw_frequency_float_def pf_truediv_def exact_arith_def)
  have same: "algorithm_12345\<lparr>current_k_index := 0\<rparr> = algorithm_12345"
    by (simp add: algorithm_12345_def init_def)
  have loop: "calculate_frequency_float_loop exact_arith algorithm_12345 NaN (Fin 2) (Fin 18) 0 5 0 =
     Inr (\<lparr> ff_frequency = Fin f0, ff_amplitude = NaN, ff_time_ms = Fin 2, ff_energy = Fin 18,
            ff_k1 = 10, ff_k2 = 100, ff_k1_k2_product = 1000, ff_k_index = 0,
            ff_is_valid = False, ff_attempts = 5 \<rparr>, algorithm_12345\<lparr>current_k_index := 0\<rparr>)"
    by (rule calculate_frequency_float_loop_nan [OF ne nan]) simp
  have guard: "(if pf_le (Fin 2) (Fin 0) then Fin t_hop else Fin 2) = Fin 2"
    by simp
  have len: "length (k1_k2_list algorithm_12345) = 5"
    by (simp add: k1_k2_list_algorithm_12345)
  show ?thesis
    unfolding calculate_frequency_float_def Let_def guard len current_k_index_algorithm_12345
      loop same f0_def
    by (rule refl)
qed

subsection \<open>Band invariant\<close>

text \<open>
  Claim C3. Every result of \<open>calculate_frequency\<close> whose validity flag is true has its
  frequency in the band: \<open>2000 \<le> frequency \<le> 4000\<close>.
\<close>

theorem valid_frequency_in_band:
  assumes "calculate_frequency s amplitude time_ms energy = Inr (freq_result, s')"
    and "fr_is_valid freq_result"
  shows "2000 \<le> fr_frequency freq_result \<and> fr_frequency freq_result \<le> 4000"
proof (cases "k1_k2_list s = []")
  case True
  from calculate_frequency_empty [OF True, of amplitude time_ms energy] assms
  show ?thesis by auto
next
  case False
  from calculate_frequency_nonempty
         [OF get_k1_k2_values_nonempty [OF False], of amplitude time_ms energy] assms(1)
  have "fr_frequency freq_result =
     band_correction (raw_frequency amplitude
       (k1_k2_list s ! nat (current_k_index s mod int (length (k1_k2_list s))) div k2_constant)
       energy k2_constant (if time_ms \<le> 0 then t_hop else time_ms))"
    by auto
  then show ?thesis
    using band_correction_in_band [of "raw_frequency amplitude
       (k1_k2_list s ! nat (current_k_index s mod int (length (k1_k2_list s))) div k2_constant)
       energy k2_constant (if time_ms \<le> 0 then t_hop else time_ms)"]
    by (simp add: band_min_def band_max_def)
qed

theorem valid_frequency_in_band_witness:
  "calculate_frequency algorithm_12345 3 2 18 =
     Inr (\<lparr> fr_frequency = 2915, fr_amplitude = 3, fr_time_ms = 2, fr_energy = 18,
            fr_k1 = 10, fr_k2 = 100, fr_k1_k2_product = 1000, fr_k_index = 0,
            fr_is_valid = True, fr_attempts = 1 \<rparr>, algorithm_12345)
   \<and> fr_is_valid \<lparr> fr_frequency = 2915, fr_amplitude = 3, fr_time_ms = 2, fr_energy = 18,
            fr_k1 = 10, fr_k2 = 100, fr_k1_k2_product = 1000, fr_k_index = 0,
            fr_is_valid = True, fr_attempts = 1 \<rparr>
   \<and> 2000 \<le> fr_frequency \<lparr> fr_frequency = 2915, fr_amplitude = 3, fr_time_ms = 2, fr_energy = 18,
            fr_k1 = 10, fr_k2 = 100, fr_k1_k2_product = 1000, fr_k_index = 0,
            fr_is_valid = True, fr_attempts = 1 \<rparr>
   \<and> fr_frequency \<lparr> fr_frequency = 2915, fr_amplitude = 3, fr_time_ms = 2, fr_energy = 18,
            fr_k1 = 10, fr_k2 = 100, fr_k1_k2_product = 1000, fr_k_index = 0,
            fr_is_valid = True, fr_attempts = 1 \<rparr> \<le> 4000"
proof -
  have pair: "get_k1_k2_values algorithm_12345 = Inr (10, 100)"
    by (rule get_k1_k2_values_fresh_12345)
  have run: "calculate_frequency algorithm_12345 3 2 18 =
     Inr (\<lparr> fr_frequency = 2915, fr_amplitude = 3, fr_time_ms = 2, fr_energy = 18,
            fr_k1 = 10, fr_k2 = 100, fr_k1_k2_product = 1000, fr_k_index = 0,
            fr_is_valid = True, fr_attempts = 1 \<rparr>, algorithm_12345)"
    by (simp add: calculate_frequency_nonempty [OF pair] raw_frequency_def py_truediv_def f0_def
        band_correction_def band_min_def band_max_def current_k_index_algorithm_12345)
  from valid_frequency_in_band [OF run] run show ?thesis by simp
qed

subsection \<open>Exhaustion of the coefficient list\<close>

text \<open>
  Claim C4. The claim: at most \<open>len(k1_k2_list)\<close> pairs are tried, and when every pair
  gives an unclamped frequency outside the band the result is the fallback (frequency 2000,
  \<open>k1 = 10\<close>, \<open>k2 = 100\<close>, validity false) with the index restored. The code at an input
  where every pair is out of band: the instance of key 12345 after one hop (index 1,
  \<open>k1 = 18\<close>), amplitude 3, time 2, energy 1000. The five pairs give unclamped frequencies
  between 52015 and 52039. The code returns the corrected frequency 4000 with the pair of
  index 1, validity true and one attempt, not the fallback.
\<close>

theorem calculate_frequency_no_fallback_when_all_out_of_band:
  "calculate_frequency (algorithm_12345\<lparr>current_k_index := 1, hop_counter := 1\<rparr>) 3 2 1000 =
     Inr (\<lparr> fr_frequency = 4000, fr_amplitude = 3, fr_time_ms = 2, fr_energy = 1000,
            fr_k1 = 18, fr_k2 = 100, fr_k1_k2_product = 1800, fr_k_index = 1,
            fr_is_valid = True, fr_attempts = 1 \<rparr>,
          algorithm_12345\<lparr>current_k_index := 1, hop_counter := 1\<rparr>)
   \<and> map (\<lambda>i. get_k1_k2_values (algorithm_12345\<lparr>current_k_index := i, hop_counter := 1\<rparr>))
         [0, 1, 2, 3, 4] =
       [Inr (10, 100), Inr (18, 100), Inr (25, 100), Inr (26, 100), Inr (26, 100)]
   \<and> map (\<lambda>k1. raw_frequency 3 k1 1000 100 2) [10, 18, 25, 26, 26] =
       [52015, 52027, 52037.5, 52039, 52039]"
proof -
  have pair:
    "get_k1_k2_values (algorithm_12345\<lparr>current_k_index := 1, hop_counter := 1\<rparr>) = Inr (18, 100)"
    using get_k1_k2_values_algorithm_12345 [of 1 1] by simp
  have raw: "raw_frequency 3 18 1000 100 2 = 52027"
    by (simp add: raw_frequency_def py_truediv_def f0_def)
  have "calculate_frequency (algorithm_12345\<lparr>current_k_index := 1, hop_counter := 1\<rparr>) 3 2 1000 =
     Inr (\<lparr> fr_frequency = 4000, fr_amplitude = 3, fr_time_ms = 2, fr_energy = 1000,
            fr_k1 = 18, fr_k2 = 100, fr_k1_k2_product = 1800, fr_k_index = 1,
            fr_is_valid = True, fr_attempts = 1 \<rparr>,
          algorithm_12345\<lparr>current_k_index := 1, hop_counter := 1\<rparr>)"
    by (simp add: calculate_frequency_nonempty [OF pair] raw
        band_correction_def band_min_def band_max_def)
  moreover have
    "map (\<lambda>i. get_k1_k2_values (algorithm_12345\<lparr>current_k_index := i, hop_counter := 1\<rparr>))
         [0, 1, 2, 3, 4] =
       [Inr (10, 100), Inr (18, 100), Inr (25, 100), Inr (26, 100), Inr (26, 100)]"
    using get_k1_k2_values_algorithm_12345 [of 0 1] get_k1_k2_values_algorithm_12345 [of 1 1]
      get_k1_k2_values_algorithm_12345 [of 2 1] get_k1_k2_values_algorithm_12345 [of 3 1]
      get_k1_k2_values_algorithm_12345 [of 4 1]
    by simp
  moreover have "map (\<lambda>k1. raw_frequency 3 k1 1000 100 2) [10, 18, 25, 26, 26] =
       [52015, 52027, 52037.5, 52039, 52039]"
    by (simp add: raw_frequency_def py_truediv_def f0_def)
  ultimately show ?thesis by simp
qed

subsection \<open>Zero-time guard\<close>

text \<open>
  Claim C5. A call of \<open>calculate_frequency\<close> with \<open>time_ms \<le> 0\<close> is the call with the hop
  duration \<open>t_hop = 2\<close> in its place: it returns a result (no exception), the result's time
  is 2, a division by that time does not raise, and on a state with a coefficient pair
  \<open>(k1, k2)\<close> the frequency is the band correction of
  \<open>f0 + (amplitude * k1 + energy * k2) / 2\<close>.
\<close>

theorem calculate_frequency_zero_time_guard:
  assumes "time_ms \<le> 0"
  shows "calculate_frequency s amplitude time_ms energy =
           calculate_frequency s amplitude t_hop energy
       \<and> (\<exists>freq_result.
             calculate_frequency s amplitude time_ms energy = Inr (freq_result, s)
           \<and> fr_time_ms freq_result = 2
           \<and> (\<forall>x. py_truediv x (fr_time_ms freq_result) = Inr (x / 2))
           \<and> (\<forall>k1 k2. get_k1_k2_values s = Inr (k1, k2) \<longrightarrow>
                 fr_frequency freq_result =
                   band_correction (f0 + (amplitude * of_int k1 + energy * of_int k2) / 2)))"
proof -
  have same: "calculate_frequency s amplitude time_ms energy =
           calculate_frequency s amplitude t_hop energy"
    using assms by (simp add: calculate_frequency_def t_hop_def)
  have guard: "(if time_ms \<le> 0 then t_hop else time_ms) = 2"
    using assms by (simp add: t_hop_def)
  have division: "\<forall>x. py_truediv x (2::real) = Inr (x / 2)"
    by (simp add: py_truediv_def)
  have "\<exists>freq_result.
             calculate_frequency s amplitude time_ms energy = Inr (freq_result, s)
           \<and> fr_time_ms freq_result = 2
           \<and> (\<forall>k1 k2. get_k1_k2_values s = Inr (k1, k2) \<longrightarrow>
                 fr_frequency freq_result =
                   band_correction (f0 + (amplitude * of_int k1 + energy * of_int k2) / 2))"
  proof (cases "k1_k2_list s = []")
    case True
    show ?thesis
      unfolding calculate_frequency_empty [OF True] guard
      by (simp add: get_k1_k2_values_empty [OF True])
  next
    case False
    show ?thesis
      unfolding calculate_frequency_nonempty [OF get_k1_k2_values_nonempty [OF False]] guard
      by (simp add: get_k1_k2_values_nonempty [OF False] raw_frequency_def py_truediv_def)
  qed
  then obtain freq_result where
    "calculate_frequency s amplitude time_ms energy = Inr (freq_result, s)"
    "fr_time_ms freq_result = 2"
    "\<forall>k1 k2. get_k1_k2_values s = Inr (k1, k2) \<longrightarrow>
                 fr_frequency freq_result =
                   band_correction (f0 + (amplitude * of_int k1 + energy * of_int k2) / 2)"
    by blast
  with division have "\<exists>freq_result.
             calculate_frequency s amplitude time_ms energy = Inr (freq_result, s)
           \<and> fr_time_ms freq_result = 2
           \<and> (\<forall>x. py_truediv x (fr_time_ms freq_result) = Inr (x / 2))
           \<and> (\<forall>k1 k2. get_k1_k2_values s = Inr (k1, k2) \<longrightarrow>
                 fr_frequency freq_result =
                   band_correction (f0 + (amplitude * of_int k1 + energy * of_int k2) / 2))"
    by auto
  with same show ?thesis by (rule conjI)
qed

theorem calculate_frequency_zero_time_guard_witness:
  "(0::real) \<le> 0
   \<and> calculate_frequency algorithm_12345 3 0 18 = calculate_frequency algorithm_12345 3 t_hop 18
   \<and> (\<exists>freq_result.
         calculate_frequency algorithm_12345 3 0 18 = Inr (freq_result, algorithm_12345)
       \<and> fr_time_ms freq_result = 2
       \<and> (\<forall>x. py_truediv x (fr_time_ms freq_result) = Inr (x / 2))
       \<and> fr_frequency freq_result = 2915)"
proof -
  have zero: "(0::real) \<le> 0" by simp
  have freq: "band_correction (f0 + (3 * of_int 10 + 18 * of_int 100) / 2) = 2915"
    by (simp add: band_correction_def band_min_def band_max_def f0_def)
  from calculate_frequency_zero_time_guard [OF zero, of algorithm_12345 3 18]
  have same: "calculate_frequency algorithm_12345 3 0 18 =
      calculate_frequency algorithm_12345 3 t_hop 18"
    and "\<exists>freq_result.
         calculate_frequency algorithm_12345 3 0 18 = Inr (freq_result, algorithm_12345)
       \<and> fr_time_ms freq_result = 2
       \<and> (\<forall>x. py_truediv x (fr_time_ms freq_result) = Inr (x / 2))
       \<and> (\<forall>k1 k2. get_k1_k2_values algorithm_12345 = Inr (k1, k2) \<longrightarrow>
             fr_frequency freq_result =
               band_correction (f0 + (3 * of_int k1 + 18 * of_int k2) / 2))"
    by blast+
  then obtain freq_result where
    r: "calculate_frequency algorithm_12345 3 0 18 = Inr (freq_result, algorithm_12345)"
      "fr_time_ms freq_result = 2"
      "\<forall>x. py_truediv x (fr_time_ms freq_result) = Inr (x / 2)"
    and f: "\<forall>k1 k2. get_k1_k2_values algorithm_12345 = Inr (k1, k2) \<longrightarrow>
             fr_frequency freq_result =
               band_correction (f0 + (3 * of_int k1 + 18 * of_int k2) / 2)"
    by blast
  from f get_k1_k2_values_fresh_12345 freq have "fr_frequency freq_result = 2915"
    by metis
  with r same zero show ?thesis by blast
qed

section \<open>Properties of the validator\<close>

text \<open>
  Claim C6. \<open>validate_signal\<close> marks the amplitude valid iff
  \<open>3.0 - 0.3 \<le> amplitude \<le> 3.0 + 0.3\<close> and the time valid iff
  \<open>2 - 0.1 \<le> time_ms \<le> 2 + 0.1\<close>; the combined flag is the conjunction of the two; the
  state after the call is the state before it. The four bounds themselves are valid, and
  a value beyond a bound by any \<open>eps > 0\<close> is not.
\<close>

theorem validate_signal_windows:
  "vr_is_valid_amplitude (fst (validate_signal s amplitude time_ms))
     = (3.0 - 0.3 \<le> amplitude \<and> amplitude \<le> 3.0 + 0.3)
   \<and> vr_is_valid_time (fst (validate_signal s amplitude time_ms))
     = (2 - 0.1 \<le> time_ms \<and> time_ms \<le> 2 + 0.1)
   \<and> vr_is_valid (fst (validate_signal s amplitude time_ms))
     = (vr_is_valid_amplitude (fst (validate_signal s amplitude time_ms))
        \<and> vr_is_valid_time (fst (validate_signal s amplitude time_ms)))
   \<and> snd (validate_signal s amplitude time_ms) = s
   \<and> vr_is_valid_amplitude (fst (validate_signal s (3.0 - 0.3) time_ms))
   \<and> vr_is_valid_amplitude (fst (validate_signal s (3.0 + 0.3) time_ms))
   \<and> vr_is_valid_time (fst (validate_signal s amplitude (2 - 0.1)))
   \<and> vr_is_valid_time (fst (validate_signal s amplitude (2 + 0.1)))
   \<and> (\<forall>eps > 0.
         \<not> vr_is_valid_amplitude (fst (validate_signal s (3.0 - 0.3 - eps) time_ms))
       \<and> \<not> vr_is_valid_amplitude (fst (validate_signal s (3.0 + 0.3 + eps) time_ms))
       \<and> \<not> vr_is_valid_time (fst (validate_signal s amplitude (2 - 0.1 - eps)))
       \<and> \<not> vr_is_valid_time (fst (validate_signal s amplitude (2 + 0.1 + eps))))"
  by (simp add: validate_signal_def Let_def nominal_amplitude_def amplitude_tolerance_def
      t_hop_def time_tolerance_def)

theorem validate_signal_windows_witness:
  "vr_is_valid_amplitude (fst (validate_signal algorithm_12345 3.3 2.1))
   \<and> vr_is_valid_time (fst (validate_signal algorithm_12345 3.3 2.1))
   \<and> vr_is_valid (fst (validate_signal algorithm_12345 3.3 2.1))
   \<and> snd (validate_signal algorithm_12345 3.3 2.1) = algorithm_12345
   \<and> (0::real) < 0.001
   \<and> \<not> vr_is_valid_amplitude (fst (validate_signal algorithm_12345 (3.0 + 0.3 + 0.001) 2.1))
   \<and> \<not> vr_is_valid_time (fst (validate_signal algorithm_12345 3.3 (2 - 0.1 - 0.001)))
   \<and> \<not> vr_is_valid (fst (validate_signal algorithm_12345 3.3 (2 - 0.1 - 0.001)))"
proof -
  note a = validate_signal_windows [of algorithm_12345 "3.3" "2.1"]
  note b = validate_signal_windows [of algorithm_12345 "3.3" "2 - 0.1 - 0.001"]
  have e: "(0::real) < 0.001" by simp
  from a have a1: "vr_is_valid_amplitude (fst (validate_signal algorithm_12345 3.3 2.1))"
    and a2: "vr_is_valid_time (fst (validate_signal algorithm_12345 3.3 2.1))"
    and a3: "vr_is_valid (fst (validate_signal algorithm_12345 3.3 2.1))"
    and a4: "snd (validate_signal algorithm_12345 3.3 2.1) = algorithm_12345"
    by simp_all
  from a e have a5:
    "\<not> vr_is_valid_amplitude (fst (validate_signal algorithm_12345 (3.0 + 0.3 + 0.001) 2.1))"
    by blast
  from b e have b1:
    "\<not> vr_is_valid_time (fst (validate_signal algorithm_12345 3.3 (2 - 0.1 - 0.001)))"
    by blast
  with b have b2:
    "\<not> vr_is_valid (fst (validate_signal algorithm_12345 3.3 (2 - 0.1 - 0.001)))"
    by blast
  from a1 a2 a3 a4 e a5 b1 b2 show ?thesis by blast
qed

section \<open>Properties of the hop state machine and the driver\<close>

subsection \<open>Auxiliary facts\<close>

text \<open>
  \<open>calculate_frequency\<close> leaves the state as it was; \<open>next_hop\<close> moves the index one
  step round the list; so after \<open>n\<close> hops from index 0 the index is \<open>n mod len\<close>, whatever
  each hop computed. A loop over a list, run on a prefix of it, does what it does on the
  whole list up to that point (\<open>receiver_loop_append\<close>).
\<close>

lemma calculate_frequency_total:
  "\<exists>freq_result. calculate_frequency s amplitude time_ms energy = Inr (freq_result, s)
      \<and> fr_k_index freq_result = current_k_index s"
proof (cases "k1_k2_list s = []")
  case True
  then show ?thesis by (simp add: calculate_frequency_empty)
next
  case False
  then show ?thesis
    by (simp add: calculate_frequency_nonempty [OF get_k1_k2_values_nonempty [OF False]])
qed

lemma next_hop_nonempty:
  assumes "k1_k2_list s \<noteq> []"
  shows "\<exists>info s'. next_hop s = Inr (info, s')
      \<and> sync_key s' = sync_key s
      \<and> k1_k2_list s' = k1_k2_list s
      \<and> current_k_index s' = (current_k_index s + 1) mod int (length (k1_k2_list s))
      \<and> hop_counter s' = hop_counter s + 1"
  using assms by (simp add: next_hop_def py_mod_def Let_def)

lemma sender_hop_step:
  assumes "k1_k2_list s \<noteq> []"
  shows "\<exists>result s'. sender_hop s i r = Inr (result, s')
      \<and> sender_k_index result = current_k_index s
      \<and> k1_k2_list s' = k1_k2_list s
      \<and> current_k_index s' = (current_k_index s + 1) mod int (length (k1_k2_list s))
      \<and> hop_counter s' = hop_counter s + 1"
proof -
  let ?p = "generate_signal_parameters s r"
  obtain freq_result where
    f: "calculate_frequency s (sp_amplitude ?p) (sp_time_ms ?p) (sp_energy ?p) = Inr (freq_result, s)"
      "fr_k_index freq_result = current_k_index s"
    using calculate_frequency_total by blast
  obtain info s' where
    n: "next_hop s = Inr (info, s')" "k1_k2_list s' = k1_k2_list s"
      "current_k_index s' = (current_k_index s + 1) mod int (length (k1_k2_list s))"
      "hop_counter s' = hop_counter s + 1"
    using next_hop_nonempty [OF assms] by blast
  show ?thesis
    using f n by (simp add: sender_hop_def Let_def sender_k_index_def)
qed

lemma receiver_hop_step:
  assumes "k1_k2_list s \<noteq> []"
  shows "\<exists>result s'. receiver_hop s i sender_data noise_level r_noise r_time = Inr (result, s')
      \<and> (\<forall>freq_result. rr_freq_result result = Computed freq_result
            \<longrightarrow> fr_k_index freq_result = current_k_index s)
      \<and> k1_k2_list s' = k1_k2_list s
      \<and> current_k_index s' = (current_k_index s + 1) mod int (length (k1_k2_list s))
      \<and> hop_counter s' = hop_counter s + 1"
proof -
  let ?a = "sender_amplitude sender_data * (1 + uniform (- noise_level) noise_level r_noise)"
  let ?e = "sender_energy sender_data * (1 + uniform (- noise_level) noise_level r_noise)"
  let ?t = "sender_time_ms sender_data + uniform (- 0.05) 0.05 r_time"
  obtain freq_result where
    f: "calculate_frequency s ?a ?t ?e = Inr (freq_result, s)"
      "fr_k_index freq_result = current_k_index s"
    using calculate_frequency_total by blast
  obtain info s' where
    n: "next_hop s = Inr (info, s')" "k1_k2_list s' = k1_k2_list s"
      "current_k_index s' = (current_k_index s + 1) mod int (length (k1_k2_list s))"
      "hop_counter s' = hop_counter s + 1"
    using next_hop_nonempty [OF assms] by blast
  show ?thesis
    using f n
    by (simp add: receiver_hop_def Let_def validate_signal_def measure_signal_parameters_def)
qed


lemma hop_index_step:
  assumes "(L::int) > 0"
  shows "(int n mod L + 1) mod L = int (Suc n) mod L"
  by (simp add: mod_add_left_eq add.commute [of 1])

lemma sender_loop_indices:
  assumes "k1_k2_list s \<noteq> []"
    and "current_k_index s = int n mod int (length (k1_k2_list s))"
  shows "\<exists>new s'. sender_loop s rnd hops results = Inr (results @ new, s')
      \<and> length new = length hops
      \<and> k1_k2_list s' = k1_k2_list s
      \<and> current_k_index s' = int (n + length hops) mod int (length (k1_k2_list s))
      \<and> (\<forall>j < length hops.
            sender_k_index (new ! j) = int (n + j) mod int (length (k1_k2_list s)))"
  using assms
proof (induction hops arbitrary: s results n)
  case Nil
  then show ?case by simp
next
  case (Cons i rest)
  let ?L = "int (length (k1_k2_list s))"
  from Cons.prems(1) have L: "?L > 0" by simp
  obtain result s1 where
    h: "sender_hop s i (rnd i) = Inr (result, s1)"
      "sender_k_index result = current_k_index s"
      "k1_k2_list s1 = k1_k2_list s"
      "current_k_index s1 = (current_k_index s + 1) mod ?L"
    using sender_hop_step [OF Cons.prems(1)] by blast
  have idx: "current_k_index s1 = int (Suc n) mod int (length (k1_k2_list s1))"
    using h(3,4) Cons.prems(2) hop_index_step [OF L] by simp
  have ne: "k1_k2_list s1 \<noteq> []"
    using h(3) Cons.prems(1) by simp
  from Cons.IH [OF ne idx, of "results @ [result]"]
  obtain new s' where
    r: "sender_loop s1 rnd rest (results @ [result]) = Inr ((results @ [result]) @ new, s')"
      "length new = length rest"
      "k1_k2_list s' = k1_k2_list s1"
      "current_k_index s' = int (Suc n + length rest) mod int (length (k1_k2_list s1))"
      "\<forall>j < length rest.
         sender_k_index (new ! j) = int (Suc n + j) mod int (length (k1_k2_list s1))"
    by blast
  have all: "\<forall>j < length (i # rest).
      sender_k_index ((result # new) ! j) = int (n + j) mod ?L"
  proof (intro allI impI)
    fix j assume "j < length (i # rest)"
    then show "sender_k_index ((result # new) ! j) = int (n + j) mod ?L"
      using h(2,3) Cons.prems(2) r(5) by (cases j) simp_all
  qed
  have "sender_loop s rnd (i # rest) results = Inr (results @ (result # new), s')"
    using h(1) r(1) by simp
  moreover have "length (result # new) = length (i # rest)"
    using r(2) by simp
  moreover have "k1_k2_list s' = k1_k2_list s"
    using r(3) h(3) by simp
  moreover have "current_k_index s' = int (n + length (i # rest)) mod ?L"
    using r(4) h(3) by simp
  ultimately show ?case using all by blast
qed

lemma receiver_loop_indices:
  assumes "k1_k2_list s \<noteq> []"
    and "current_k_index s = int i mod int (length (k1_k2_list s))"
  shows "\<exists>new s'. receiver_loop s noise_level rnd i sender_results results = Inr (results @ new, s')
      \<and> length new = length sender_results
      \<and> k1_k2_list s' = k1_k2_list s
      \<and> current_k_index s' = int (i + length sender_results) mod int (length (k1_k2_list s))
      \<and> (\<forall>j < length sender_results. \<forall>freq_result.
            rr_freq_result (new ! j) = Computed freq_result
            \<longrightarrow> fr_k_index freq_result = int (i + j) mod int (length (k1_k2_list s)))"
  using assms
proof (induction sender_results arbitrary: s results i)
  case Nil
  then show ?case by simp
next
  case (Cons sender_data rest)
  let ?L = "int (length (k1_k2_list s))"
  from Cons.prems(1) have L: "?L > 0" by simp
  obtain result s1 where
    h: "receiver_hop s i sender_data noise_level (rnd (2 * i)) (rnd (2 * i + 1)) = Inr (result, s1)"
      "\<forall>freq_result. rr_freq_result result = Computed freq_result
            \<longrightarrow> fr_k_index freq_result = current_k_index s"
      "k1_k2_list s1 = k1_k2_list s"
      "current_k_index s1 = (current_k_index s + 1) mod ?L"
    using receiver_hop_step [OF Cons.prems(1)] by blast
  have idx: "current_k_index s1 = int (i + 1) mod int (length (k1_k2_list s1))"
    using h(3,4) Cons.prems(2) hop_index_step [OF L, of i] by simp
  have ne: "k1_k2_list s1 \<noteq> []"
    using h(3) Cons.prems(1) by simp
  from Cons.IH [OF ne idx, of "results @ [result]"]
  obtain new s' where
    r: "receiver_loop s1 noise_level rnd (i + 1) rest (results @ [result]) =
          Inr ((results @ [result]) @ new, s')"
      "length new = length rest"
      "k1_k2_list s' = k1_k2_list s1"
      "current_k_index s' = int (i + 1 + length rest) mod int (length (k1_k2_list s1))"
      "\<forall>j < length rest. \<forall>freq_result.
         rr_freq_result (new ! j) = Computed freq_result
         \<longrightarrow> fr_k_index freq_result = int (i + 1 + j) mod int (length (k1_k2_list s1))"
    by blast
  have all: "\<forall>j < length (sender_data # rest). \<forall>freq_result.
      rr_freq_result ((result # new) ! j) = Computed freq_result
      \<longrightarrow> fr_k_index freq_result = int (i + j) mod ?L"
  proof (intro allI impI)
    fix j freq_result
    assume "j < length (sender_data # rest)"
      and "rr_freq_result ((result # new) ! j) = Computed freq_result"
    then show "fr_k_index freq_result = int (i + j) mod ?L"
      using h(2,3) Cons.prems(2) r(5) by (cases j) auto
  qed
  have "receiver_loop s noise_level rnd i (sender_data # rest) results =
      Inr (results @ (result # new), s')"
    using h(1) r(1) by simp
  moreover have "length (result # new) = length (sender_data # rest)"
    using r(2) by simp
  moreover have "k1_k2_list s' = k1_k2_list s"
    using r(3) h(3) by simp
  moreover have "current_k_index s' = int (i + length (sender_data # rest)) mod ?L"
    using r(4) h(3) by simp
  ultimately show ?case using all by blast
qed

lemma receiver_loop_append:
  "receiver_loop s noise_level rnd i (xs @ ys) results =
     (case receiver_loop s noise_level rnd i xs results of
        Inl e \<Rightarrow> Inl e
      | Inr (results', s') \<Rightarrow> receiver_loop s' noise_level rnd (i + length xs) ys results')"
proof (induction xs arbitrary: s i results)
  case Nil
  show ?case by simp
next
  case (Cons x xs)
  show ?case
    by (cases "receiver_hop s i x noise_level (rnd (2 * i)) (rnd (2 * i + 1))")
       (auto simp add: Cons.IH split: sum.splits prod.splits)
qed


lemma init_fields:
  "length (k1_k2_list (init key randint)) = 5"
  "current_k_index (init key randint) = 0"
  "hop_counter (init key randint) = 0"
  by (simp_all add: init_def)

lemma receiver_hop_validation:
  assumes "receiver_hop s i sender_data noise_level r_noise r_time = Inr (result, s')"
  shows "vr_is_valid (rr_validation result) =
           (3.0 - 0.3 \<le> sender_amplitude sender_data * (1 + uniform (- noise_level) noise_level r_noise)
          \<and> sender_amplitude sender_data * (1 + uniform (- noise_level) noise_level r_noise) \<le> 3.0 + 0.3
          \<and> 2 - 0.1 \<le> sender_time_ms sender_data + uniform (- 0.05) 0.05 r_time
          \<and> sender_time_ms sender_data + uniform (- 0.05) 0.05 r_time \<le> 2 + 0.1)"
    and "(rr_freq_result result = Not_computed) = (\<not> vr_is_valid (rr_validation result))"
    and "rr_original_data result = sender_data"
  using assms
  by (auto simp add: receiver_hop_def Let_def validate_signal_def measure_signal_parameters_def
      nominal_amplitude_def amplitude_tolerance_def t_hop_def time_tolerance_def
      split: sum.splits if_splits prod.splits)

lemma receiver_loop_results:
  assumes "receiver_loop s noise_level rnd i sender_results results = Inr (out, s')"
  shows "\<exists>new. out = results @ new \<and> length new = length sender_results
     \<and> (\<forall>j < length sender_results.
           rr_original_data (new ! j) = sender_results ! j
         \<and> (rr_freq_result (new ! j) = Not_computed) = (\<not> vr_is_valid (rr_validation (new ! j)))
         \<and> vr_is_valid (rr_validation (new ! j)) =
             (3.0 - 0.3 \<le> sender_amplitude (sender_results ! j)
                              * (1 + uniform (- noise_level) noise_level (rnd (2 * (i + j))))
            \<and> sender_amplitude (sender_results ! j)
                 * (1 + uniform (- noise_level) noise_level (rnd (2 * (i + j)))) \<le> 3.0 + 0.3
            \<and> 2 - 0.1 \<le> sender_time_ms (sender_results ! j)
                           + uniform (- 0.05) 0.05 (rnd (2 * (i + j) + 1))
            \<and> sender_time_ms (sender_results ! j)
                 + uniform (- 0.05) 0.05 (rnd (2 * (i + j) + 1)) \<le> 2 + 0.1))"
  using assms
proof (induction sender_results arbitrary: s i results)
  case Nil
  then show ?case by simp
next
  case (Cons sender_data rest)
  from Cons.prems obtain result s1 where
    h: "receiver_hop s i sender_data noise_level (rnd (2 * i)) (rnd (2 * i + 1)) = Inr (result, s1)"
    and l: "receiver_loop s1 noise_level rnd (i + 1) rest (results @ [result]) = Inr (out, s')"
    by (auto split: sum.splits)
  from Cons.IH [OF l] obtain new where
    n: "out = (results @ [result]) @ new" "length new = length rest"
      "\<forall>j < length rest.
           rr_original_data (new ! j) = rest ! j
         \<and> (rr_freq_result (new ! j) = Not_computed) = (\<not> vr_is_valid (rr_validation (new ! j)))
         \<and> vr_is_valid (rr_validation (new ! j)) =
             (3.0 - 0.3 \<le> sender_amplitude (rest ! j)
                              * (1 + uniform (- noise_level) noise_level (rnd (2 * (i + 1 + j))))
            \<and> sender_amplitude (rest ! j)
                 * (1 + uniform (- noise_level) noise_level (rnd (2 * (i + 1 + j)))) \<le> 3.0 + 0.3
            \<and> 2 - 0.1 \<le> sender_time_ms (rest ! j)
                           + uniform (- 0.05) 0.05 (rnd (2 * (i + 1 + j) + 1))
            \<and> sender_time_ms (rest ! j)
                 + uniform (- 0.05) 0.05 (rnd (2 * (i + 1 + j) + 1)) \<le> 2 + 0.1)"
    by blast
  have "\<forall>j < length (sender_data # rest).
           rr_original_data ((result # new) ! j) = (sender_data # rest) ! j
         \<and> (rr_freq_result ((result # new) ! j) = Not_computed)
             = (\<not> vr_is_valid (rr_validation ((result # new) ! j)))
         \<and> vr_is_valid (rr_validation ((result # new) ! j)) =
             (3.0 - 0.3 \<le> sender_amplitude ((sender_data # rest) ! j)
                              * (1 + uniform (- noise_level) noise_level (rnd (2 * (i + j))))
            \<and> sender_amplitude ((sender_data # rest) ! j)
                 * (1 + uniform (- noise_level) noise_level (rnd (2 * (i + j)))) \<le> 3.0 + 0.3
            \<and> 2 - 0.1 \<le> sender_time_ms ((sender_data # rest) ! j)
                           + uniform (- 0.05) 0.05 (rnd (2 * (i + j) + 1))
            \<and> sender_time_ms ((sender_data # rest) ! j)
                 + uniform (- 0.05) 0.05 (rnd (2 * (i + j) + 1)) \<le> 2 + 0.1)"
  proof (intro allI impI)
    fix j assume j: "j < length (sender_data # rest)"
    show "rr_original_data ((result # new) ! j) = (sender_data # rest) ! j
         \<and> (rr_freq_result ((result # new) ! j) = Not_computed)
             = (\<not> vr_is_valid (rr_validation ((result # new) ! j)))
         \<and> vr_is_valid (rr_validation ((result # new) ! j)) =
             (3.0 - 0.3 \<le> sender_amplitude ((sender_data # rest) ! j)
                              * (1 + uniform (- noise_level) noise_level (rnd (2 * (i + j))))
            \<and> sender_amplitude ((sender_data # rest) ! j)
                 * (1 + uniform (- noise_level) noise_level (rnd (2 * (i + j)))) \<le> 3.0 + 0.3
            \<and> 2 - 0.1 \<le> sender_time_ms ((sender_data # rest) ! j)
                           + uniform (- 0.05) 0.05 (rnd (2 * (i + j) + 1))
            \<and> sender_time_ms ((sender_data # rest) ! j)
                 + uniform (- 0.05) 0.05 (rnd (2 * (i + j) + 1)) \<le> 2 + 0.1)"
    proof (cases j)
      case 0
      then show ?thesis using receiver_hop_validation [OF h] by simp
    next
      case (Suc k)
      then have "k < length rest" using j by simp
      with n(3) Suc show ?thesis by simp
    qed
  qed
  with n(1,2) show ?case by simp
qed

subsection \<open>Hop-state alignment\<close>

text \<open>
  Claim C7. A sender run of any number of hops, from the constructed state and with any
  random draws, followed by a receiver run over its results with any noise level and any
  random draws: both runs return, and for every hop \<open>i\<close> the index the sender recorded is
  \<open>i mod 5\<close>; the receiver enters hop \<open>i\<close> with the same index (the state in which the
  receiver's run over the first \<open>i\<close> results ends, which produces the first \<open>i\<close> receiver
  results); and whenever the receiver's hop \<open>i\<close> passes validation, the index in its
  frequency result is the sender's too. Nothing is assumed of the validation outcomes.
\<close>

theorem hop_state_alignment:
  "\<exists>sender_results s1 receiver_results s2.
      simulate_sender_operation (init key randint) hop_count rnd_s = Inr (sender_results, s1)
    \<and> length sender_results = nat hop_count
    \<and> simulate_receiver_operation s1 sender_results noise_level rnd_r = Inr (receiver_results, s2)
    \<and> length receiver_results = length sender_results
    \<and> (\<forall>i < length sender_results.
          sender_k_index (sender_results ! i) = int i mod 5
        \<and> (\<exists>prefix s_i.
              simulate_receiver_operation s1 (take i sender_results) noise_level rnd_r
                = Inr (prefix, s_i)
            \<and> prefix = take i receiver_results
            \<and> current_k_index s_i = sender_k_index (sender_results ! i))
        \<and> (\<forall>freq_result.
              rr_freq_result (receiver_results ! i) = Computed freq_result
              \<longrightarrow> fr_k_index freq_result = sender_k_index (sender_results ! i)))"
proof -
  let ?s0 = "init key randint"
  have ne0: "k1_k2_list ?s0 \<noteq> []" and idx0: "current_k_index ?s0 = int 0 mod int (length (k1_k2_list ?s0))"
    using init_fields [of key randint] by auto
  from sender_loop_indices [OF ne0 idx0, of rnd_s "[0..<nat hop_count]" "[]"]
  obtain sender_results s1 where
    snd: "simulate_sender_operation ?s0 hop_count rnd_s = Inr (sender_results, s1)"
      "length sender_results = nat hop_count"
      "k1_k2_list s1 = k1_k2_list ?s0"
      "\<forall>j < length sender_results. sender_k_index (sender_results ! j) = int j mod 5"
    by (auto simp add: simulate_sender_operation_def init_fields)
  let ?r0 = "s1\<lparr>current_k_index := 0, hop_counter := 0\<rparr>"
  have len: "int (length (k1_k2_list ?r0)) = 5"
    using snd(3) by (simp add: init_fields)
  have ne1: "k1_k2_list ?r0 \<noteq> []"
    using len by auto
  have idx1: "current_k_index ?r0 = int 0 mod int (length (k1_k2_list ?r0))"
    by simp
  have sim: "simulate_receiver_operation s1 xs noise_level rnd_r =
      receiver_loop ?r0 noise_level rnd_r 0 xs []" for xs
    by (simp add: simulate_receiver_operation_def Let_def)
  from receiver_loop_indices [OF ne1 idx1, of noise_level rnd_r sender_results "[]"]
  obtain receiver_results s2 where
    rcv: "receiver_loop ?r0 noise_level rnd_r 0 sender_results [] = Inr (receiver_results, s2)"
      "length receiver_results = length sender_results"
      "\<forall>j < length sender_results. \<forall>freq_result.
            rr_freq_result (receiver_results ! j) = Computed freq_result
            \<longrightarrow> fr_k_index freq_result = int j mod 5"
    using len by auto
  have hops: "\<forall>i < length sender_results.
          sender_k_index (sender_results ! i) = int i mod 5
        \<and> (\<exists>prefix s_i.
              simulate_receiver_operation s1 (take i sender_results) noise_level rnd_r
                = Inr (prefix, s_i)
            \<and> prefix = take i receiver_results
            \<and> current_k_index s_i = sender_k_index (sender_results ! i))
        \<and> (\<forall>freq_result.
              rr_freq_result (receiver_results ! i) = Computed freq_result
              \<longrightarrow> fr_k_index freq_result = sender_k_index (sender_results ! i))"
  proof (intro allI impI)
    fix i assume i: "i < length sender_results"
    from receiver_loop_indices [OF ne1 idx1, of noise_level rnd_r "take i sender_results" "[]"]
    obtain prefix s_i where
      p: "receiver_loop ?r0 noise_level rnd_r 0 (take i sender_results) [] = Inr (prefix, s_i)"
        "length prefix = i"
        "k1_k2_list s_i = k1_k2_list ?r0"
        "current_k_index s_i = int i mod 5"
      using len i by auto
    have ne2: "k1_k2_list s_i \<noteq> []"
      using p(3) ne1 by simp
    have idx2: "current_k_index s_i = int i mod int (length (k1_k2_list s_i))"
      using p(3,4) len by simp
    from receiver_loop_indices [OF ne2 idx2, of noise_level rnd_r "drop i sender_results" prefix]
    obtain rest s' where
      q: "receiver_loop s_i noise_level rnd_r i (drop i sender_results) prefix =
            Inr (prefix @ rest, s')"
      by blast
    have "receiver_loop ?r0 noise_level rnd_r 0 (take i sender_results @ drop i sender_results) [] =
        Inr (prefix @ rest, s')"
      using p(1) q i by (simp only: receiver_loop_append) simp
    then have "receiver_results = prefix @ rest"
      using rcv(1) by simp
    then have pre: "prefix = take i receiver_results"
      using p(2) by simp
    show "sender_k_index (sender_results ! i) = int i mod 5
        \<and> (\<exists>prefix s_i.
              simulate_receiver_operation s1 (take i sender_results) noise_level rnd_r
                = Inr (prefix, s_i)
            \<and> prefix = take i receiver_results
            \<and> current_k_index s_i = sender_k_index (sender_results ! i))
        \<and> (\<forall>freq_result.
              rr_freq_result (receiver_results ! i) = Computed freq_result
              \<longrightarrow> fr_k_index freq_result = sender_k_index (sender_results ! i))"
      using snd(4) rcv(3) i p(1,4) pre sim by auto
  qed
  from snd(1,2) rcv(1,2) hops sim show ?thesis by auto
qed

theorem hop_state_alignment_witness:
  "\<exists>sender_results s1 receiver_results s2.
      simulate_sender_operation (init 12345 key_12345_randint) 7 draws_half
        = Inr (sender_results, s1)
    \<and> simulate_receiver_operation s1 sender_results 1 draws_zero = Inr (receiver_results, s2)
    \<and> (6::nat) < length sender_results
    \<and> sender_k_index (sender_results ! 6) = 1
    \<and> (\<exists>prefix s_i.
          simulate_receiver_operation s1 (take 6 sender_results) 1 draws_zero = Inr (prefix, s_i)
        \<and> current_k_index s_i = 1)
    \<and> rr_freq_result (receiver_results ! 6) = Not_computed"
proof -
  from hop_state_alignment [of 12345 key_12345_randint 7 draws_half 1 draws_zero]
  obtain sender_results s1 receiver_results s2 where
    run: "simulate_sender_operation (init 12345 key_12345_randint) 7 draws_half
            = Inr (sender_results, s1)"
      "length sender_results = nat 7"
      "simulate_receiver_operation s1 sender_results 1 draws_zero = Inr (receiver_results, s2)"
    and hops: "\<forall>i < length sender_results.
          sender_k_index (sender_results ! i) = int i mod 5
        \<and> (\<exists>prefix s_i.
              simulate_receiver_operation s1 (take i sender_results) 1 draws_zero
                = Inr (prefix, s_i)
            \<and> prefix = take i receiver_results
            \<and> current_k_index s_i = sender_k_index (sender_results ! i))
        \<and> (\<forall>freq_result.
              rr_freq_result (receiver_results ! i) = Computed freq_result
              \<longrightarrow> fr_k_index freq_result = sender_k_index (sender_results ! i))"
    by blast
  have six: "(6::nat) < length sender_results"
    using run(2) by simp
  from hops six have k: "sender_k_index (sender_results ! 6) = int 6 mod 5"
    and "\<exists>prefix s_i.
              simulate_receiver_operation s1 (take 6 sender_results) 1 draws_zero
                = Inr (prefix, s_i)
            \<and> prefix = take 6 receiver_results
            \<and> current_k_index s_i = sender_k_index (sender_results ! 6)"
    by blast+
  then have pre: "\<exists>prefix s_i.
          simulate_receiver_operation s1 (take 6 sender_results) 1 draws_zero = Inr (prefix, s_i)
        \<and> current_k_index s_i = 1"
    by auto
  from run(3) have "receiver_loop (s1\<lparr>current_k_index := 0, hop_counter := 0\<rparr>) 1 draws_zero 0
      sender_results [] = Inr (receiver_results, s2)"
    by (simp add: simulate_receiver_operation_def Let_def)
  from receiver_loop_results [OF this] six
  have "(rr_freq_result (receiver_results ! 6) = Not_computed)
          = (\<not> vr_is_valid (rr_validation (receiver_results ! 6)))"
    and "\<not> vr_is_valid (rr_validation (receiver_results ! 6))"
    by (auto simp add: uniform_def draws_zero_def)
  then have "rr_freq_result (receiver_results ! 6) = Not_computed"
    by simp
  with run(1,3) six k pre show ?thesis
    by auto
qed

subsection \<open>One hop of the sender replayed by the receiver\<close>

text \<open>
  Closed forms of one sender hop and of one accepted receiver hop, and the arithmetic of
  the scenario: with \<open>k1\<close> between 10 and 30 and a received time \<open>T\<close> between 1.95 and 2.05,
  neither frequency is corrected and the two differ by \<open>(3 * k1 + 1800) * \<bar>1 / T - 1 / 2\<bar>\<close>,
  which is below 40.
\<close>

lemma next_hop_closed:
  assumes "k1_k2_list s \<noteq> []"
  shows "\<exists>info. next_hop s =
     Inr (info, s\<lparr>hop_counter := hop_counter s + 1,
                 current_k_index := (current_k_index s + 1) mod int (length (k1_k2_list s))\<rparr>)"
  using assms by (simp add: next_hop_def py_mod_def Let_def)

lemma sender_hop_closed:
  assumes "get_k1_k2_values s = Inr (k1, k2)"
  shows "sender_hop s i r =
     Inr (\<lparr> sr_hop_number = int i + 1,
            sr_operation = ''sender'',
            sr_params = generate_signal_parameters s r,
            sr_freq_result =
              \<lparr> fr_frequency =
                  band_correction
                    (raw_frequency (sp_amplitude (generate_signal_parameters s r)) k1
                       (sp_energy (generate_signal_parameters s r)) k2 2),
                fr_amplitude = sp_amplitude (generate_signal_parameters s r),
                fr_time_ms = 2,
                fr_energy = sp_energy (generate_signal_parameters s r),
                fr_k1 = k1,
                fr_k2 = k2,
                fr_k1_k2_product = k1 * k2,
                fr_k_index = current_k_index s,
                fr_is_valid = True,
                fr_attempts = 1 \<rparr>,
            sr_sync_info = sync_check s \<rparr>,
          s\<lparr>hop_counter := hop_counter s + 1,
            current_k_index := (current_k_index s + 1) mod int (length (k1_k2_list s))\<rparr>)"
proof -
  have ne: "k1_k2_list s \<noteq> []"
    using assms get_k1_k2_values_empty [of s] by auto
  have t: "sp_time_ms (generate_signal_parameters s r) = 2"
    by (simp add: generate_signal_parameters_def Let_def t_hop_def)
  from next_hop_closed [OF ne] obtain info where
    "next_hop s = Inr (info, s\<lparr>hop_counter := hop_counter s + 1,
                 current_k_index := (current_k_index s + 1) mod int (length (k1_k2_list s))\<rparr>)"
    by blast
  then show ?thesis
    by (simp add: sender_hop_def Let_def calculate_frequency_nonempty [OF assms] t)
qed

lemma receiver_hop_accepted:
  assumes "get_k1_k2_values s = Inr (k1, k2)"
    and "3.0 - 0.3 \<le> sender_amplitude sender_data * (1 + uniform (- noise_level) noise_level r_noise)"
    and "sender_amplitude sender_data * (1 + uniform (- noise_level) noise_level r_noise) \<le> 3.0 + 0.3"
    and "2 - 0.1 \<le> sender_time_ms sender_data + uniform (- 0.05) 0.05 r_time"
    and "sender_time_ms sender_data + uniform (- 0.05) 0.05 r_time \<le> 2 + 0.1"
  shows "\<exists>result freq_result.
       receiver_hop s i sender_data noise_level r_noise r_time =
         Inr (result, s\<lparr>hop_counter := hop_counter s + 1,
                 current_k_index := (current_k_index s + 1) mod int (length (k1_k2_list s))\<rparr>)
     \<and> vr_is_valid (rr_validation result)
     \<and> sp_amplitude (rr_measured result) =
         sender_amplitude sender_data * (1 + uniform (- noise_level) noise_level r_noise)
     \<and> sp_energy (rr_measured result) =
         sender_energy sender_data * (1 + uniform (- noise_level) noise_level r_noise)
     \<and> sp_time_ms (rr_measured result) =
         sender_time_ms sender_data + uniform (- 0.05) 0.05 r_time
     \<and> rr_freq_result result = Computed freq_result
     \<and> fr_frequency freq_result =
         band_correction
           (raw_frequency
              (sender_amplitude sender_data * (1 + uniform (- noise_level) noise_level r_noise)) k1
              (sender_energy sender_data * (1 + uniform (- noise_level) noise_level r_noise)) k2
              (sender_time_ms sender_data + uniform (- 0.05) 0.05 r_time))
     \<and> fr_k_index freq_result = current_k_index s
     \<and> rr_frequency_difference result =
         Finite \<bar>fr_frequency freq_result - sender_frequency sender_data\<bar>
     \<and> rr_is_match result = (\<bar>fr_frequency freq_result - sender_frequency sender_data\<bar> < 40)"
proof -
  have ne: "k1_k2_list s \<noteq> []"
    using assms(1) get_k1_k2_values_empty [of s] by auto
  from next_hop_closed [OF ne] obtain info where
    "next_hop s = Inr (info, s\<lparr>hop_counter := hop_counter s + 1,
                 current_k_index := (current_k_index s + 1) mod int (length (k1_k2_list s))\<rparr>)"
    by blast
  moreover have "\<not> sender_time_ms sender_data + uniform (- 0.05) 0.05 r_time \<le> 0"
    using assms(4) by simp
  ultimately show ?thesis
    using assms(2-5)
    by (simp add: receiver_hop_def Let_def validate_signal_def measure_signal_parameters_def
        calculate_frequency_nonempty [OF assms(1)]
        nominal_amplitude_def amplitude_tolerance_def t_hop_def time_tolerance_def)
qed

lemma lock_step_arithmetic:
  fixes K :: int and T :: real
  assumes "10 \<le> K" and "K \<le> 30" and "195 / 100 \<le> T" and "T \<le> 205 / 100"
  shows "band_correction (raw_frequency 3 K 18 100 2) = 2000 + (3 * of_int K + 1800) / 2"
    and "band_correction (raw_frequency 3 K 18 100 T) = 2000 + (3 * of_int K + 1800) / T"
    and "\<bar>(2000 + (3 * of_int K + 1800) / T) - (2000 + (3 * of_int K + 1800) / 2)\<bar> < 40"
    and "((3 * of_int K + 1800) / T = (3 * of_int K + 1800) / 2) = (T = 2)"
proof -
  define N :: real where "N = 3 * of_int K + 1800"
  have N: "1830 \<le> N" "N \<le> 1890"
    using assms(1,2) by (simp_all add: N_def)
  have T: "0 < T" using assms(3) by simp
  have up: "N / T \<le> N / (195 / 100)"
    using N(1) assms(3) by (intro divide_left_mono) simp_all
  have lo: "N / (205 / 100) \<le> N / T"
    using N(1) assms(4) T by (intro divide_left_mono) simp_all
  have up': "N / T \<le> N * (100 / 195)" using up by simp
  have lo': "N * (100 / 205) \<le> N / T" using lo by simp
  show "band_correction (raw_frequency 3 K 18 100 2) = 2000 + (3 * of_int K + 1800) / 2"
    using N by (simp add: raw_frequency_def py_truediv_def f0_def band_correction_def
        band_min_def band_max_def N_def)
  have "0 \<le> N / T" "N / T \<le> 2000"
    using up' lo' N by linarith+
  then show "band_correction (raw_frequency 3 K 18 100 T) = 2000 + (3 * of_int K + 1800) / T"
    using T by (simp add: raw_frequency_def py_truediv_def f0_def band_correction_def
        band_min_def band_max_def N_def)
  have "\<bar>N / T - N / 2\<bar> < 40"
    using up' lo' N by (simp add: abs_less_iff)
  then show "\<bar>(2000 + (3 * of_int K + 1800) / T) - (2000 + (3 * of_int K + 1800) / 2)\<bar> < 40"
    by (simp add: N_def)
  have "(N / T = N / 2) = (T = 2)"
    using N(1) T by (auto simp add: field_simps)
  then show "((3 * of_int K + 1800) / T = (3 * of_int K + 1800) / 2) = (T = 2)"
    by (simp add: N_def)
qed


lemma get_k1_k2_values_same:
  "k1_k2_list s = k1_k2_list s' \<Longrightarrow> current_k_index s = current_k_index s'
   \<Longrightarrow> get_k1_k2_values s = get_k1_k2_values s'"
  by (auto simp add: get_k1_k2_values_def split: sum.splits)

lemma generate_signal_parameters_half:
  "sp_amplitude (generate_signal_parameters s (1 / 2)) = 3"
  "sp_energy (generate_signal_parameters s (1 / 2)) = 18"
  "sp_time_ms (generate_signal_parameters s (1 / 2)) = 2"
  by (simp_all add: generate_signal_parameters_def Let_def nominal_amplitude_def uniform_def
      t_hop_def)

lemma run_simulation_one_hop:
  assumes "get_k1_k2_values s0 = Inr (K, 100)"
    and "current_k_index s0 = 0"
    and "0 \<le> rnd_r 1" and "rnd_r 1 \<le> 1"
  shows "\<exists>sender_data result freq_result s.
      run_simulation s0 1 draws_half 0 rnd_r = Inr ([sender_data], [result], s)
    \<and> sr_hop_number sender_data = 1
    \<and> sender_k_index sender_data = 0
    \<and> sender_amplitude sender_data = 3
    \<and> sender_time_ms sender_data = 2
    \<and> sender_energy sender_data = 18
    \<and> sender_frequency sender_data = band_correction (raw_frequency 3 K 18 100 2)
    \<and> sp_amplitude (rr_measured result) = 3
    \<and> sp_energy (rr_measured result) = 18
    \<and> sp_time_ms (rr_measured result) = 2 + uniform (- 0.05) 0.05 (rnd_r 1)
    \<and> rr_freq_result result = Computed freq_result
    \<and> fr_frequency freq_result =
        band_correction (raw_frequency 3 K 18 100 (2 + uniform (- 0.05) 0.05 (rnd_r 1)))
    \<and> fr_k_index freq_result = 0
    \<and> rr_frequency_difference result =
        Finite \<bar>fr_frequency freq_result - sender_frequency sender_data\<bar>
    \<and> rr_is_match result = (\<bar>fr_frequency freq_result - sender_frequency sender_data\<bar> < 40)"
proof -
  let ?s1 = "s0\<lparr>hop_counter := hop_counter s0 + 1,
            current_k_index := (current_k_index s0 + 1) mod int (length (k1_k2_list s0))\<rparr>"
  let ?r0 = "?s1\<lparr>current_k_index := 0, hop_counter := 0\<rparr>"
  define sender_data where "sender_data =
     \<lparr> sr_hop_number = int 0 + 1,
       sr_operation = ''sender'',
       sr_params = generate_signal_parameters s0 (1 / 2),
       sr_freq_result =
         \<lparr> fr_frequency =
             band_correction
               (raw_frequency (sp_amplitude (generate_signal_parameters s0 (1 / 2))) K
                  (sp_energy (generate_signal_parameters s0 (1 / 2))) 100 2),
           fr_amplitude = sp_amplitude (generate_signal_parameters s0 (1 / 2)),
           fr_time_ms = 2,
           fr_energy = sp_energy (generate_signal_parameters s0 (1 / 2)),
           fr_k1 = K,
           fr_k2 = 100,
           fr_k1_k2_product = K * 100,
           fr_k_index = current_k_index s0,
           fr_is_valid = True,
           fr_attempts = 1 \<rparr>,
       sr_sync_info = sync_check s0 \<rparr>"
  have snd: "simulate_sender_operation s0 1 draws_half = Inr ([sender_data], ?s1)"
    by (simp add: simulate_sender_operation_def sender_hop_closed [OF assms(1)] draws_half_def
        sender_data_def)
  have fields: "sr_hop_number sender_data = 1" "sender_k_index sender_data = 0"
    "sender_amplitude sender_data = 3" "sender_time_ms sender_data = 2"
    "sender_energy sender_data = 18"
    "sender_frequency sender_data = band_correction (raw_frequency 3 K 18 100 2)"
    by (simp_all add: sender_data_def sender_k_index_def sender_amplitude_def sender_time_ms_def
        sender_energy_def sender_frequency_def generate_signal_parameters_half assms(2))
  have pair: "get_k1_k2_values ?r0 = Inr (K, 100)"
    using get_k1_k2_values_same [of ?r0 s0] assms(1,2) by simp
  have u: "uniform (- 0.05) 0.05 (rnd_r 1) = - 0.05 + 0.1 * rnd_r 1"
    by (simp add: uniform_def)
  have w: "3.0 - 0.3 \<le> sender_amplitude sender_data * (1 + uniform (- 0) 0 (rnd_r 0))"
    "sender_amplitude sender_data * (1 + uniform (- 0) 0 (rnd_r 0)) \<le> 3.0 + 0.3"
    "2 - 0.1 \<le> sender_time_ms sender_data + uniform (- 0.05) 0.05 (rnd_r 1)"
    "sender_time_ms sender_data + uniform (- 0.05) 0.05 (rnd_r 1) \<le> 2 + 0.1"
    using assms(3,4) by (simp_all add: fields u) (simp_all add: uniform_def)
  from receiver_hop_accepted [OF pair w, of 0]
  obtain result freq_result where
    r: "receiver_hop ?r0 0 sender_data 0 (rnd_r 0) (rnd_r 1) =
         Inr (result, ?r0\<lparr>hop_counter := hop_counter ?r0 + 1,
                 current_k_index := (current_k_index ?r0 + 1) mod int (length (k1_k2_list ?r0))\<rparr>)"
      "sp_amplitude (rr_measured result) = sender_amplitude sender_data * (1 + uniform (- 0) 0 (rnd_r 0))"
      "sp_energy (rr_measured result) = sender_energy sender_data * (1 + uniform (- 0) 0 (rnd_r 0))"
      "sp_time_ms (rr_measured result) = sender_time_ms sender_data + uniform (- 0.05) 0.05 (rnd_r 1)"
      "rr_freq_result result = Computed freq_result"
      "fr_frequency freq_result =
         band_correction
           (raw_frequency
              (sender_amplitude sender_data * (1 + uniform (- 0) 0 (rnd_r 0))) K
              (sender_energy sender_data * (1 + uniform (- 0) 0 (rnd_r 0))) 100
              (sender_time_ms sender_data + uniform (- 0.05) 0.05 (rnd_r 1)))"
      "fr_k_index freq_result = current_k_index ?r0"
      "rr_frequency_difference result =
         Finite \<bar>fr_frequency freq_result - sender_frequency sender_data\<bar>"
      "rr_is_match result = (\<bar>fr_frequency freq_result - sender_frequency sender_data\<bar> < 40)"
    by blast
  have noise: "uniform 0 0 (rnd_r 0) = 0"
    by (simp add: uniform_def)
  have rcv: "simulate_receiver_operation ?s1 [sender_data] 0 rnd_r =
      Inr ([result], ?r0\<lparr>hop_counter := hop_counter ?r0 + 1,
                 current_k_index := (current_k_index ?r0 + 1) mod int (length (k1_k2_list ?r0))\<rparr>)"
    using r(1) by (simp add: simulate_receiver_operation_def Let_def)
  have "run_simulation s0 1 draws_half 0 rnd_r =
      Inr ([sender_data], [result], ?r0\<lparr>hop_counter := hop_counter ?r0 + 1,
                 current_k_index := (current_k_index ?r0 + 1) mod int (length (k1_k2_list ?r0))\<rparr>)"
    by (simp only: run_simulation_def snd rcv sum.case prod.case)
  moreover have "sp_amplitude (rr_measured result) = 3" "sp_energy (rr_measured result) = 18"
    "sp_time_ms (rr_measured result) = 2 + uniform (- 0.05) 0.05 (rnd_r 1)"
    "fr_frequency freq_result =
        band_correction (raw_frequency 3 K 18 100 (2 + uniform (- 0.05) 0.05 (rnd_r 1)))"
    "fr_k_index freq_result = 0"
    using r(2,3,4,6,7) by (simp_all add: fields noise)
  ultimately show ?thesis
    using fields r(5,8,9) by blast
qed


lemma init_pair_bounds:
  assumes "set (map randint [0..<5]) \<subseteq> {1000..3000}"
  shows "\<exists>K. get_k1_k2_values (init key randint) = Inr (K, 100) \<and> 10 \<le> K \<and> K \<le> 30"
proof -
  let ?l = "sort (map randint [0..<5])"
  have len: "length ?l = 5" by simp
  have ne: "k1_k2_list (init key randint) \<noteq> []"
    using init_fields(1) [of key randint] by auto
  have "?l ! 0 \<in> set ?l"
    using len by (intro nth_mem) simp
  then have "?l ! 0 \<in> {1000..3000}"
    using assms by auto
  then have "1000 \<le> ?l ! 0" "?l ! 0 \<le> 3000" by simp_all
  then have "10 \<le> ?l ! 0 div 100" "?l ! 0 div 100 \<le> 30" by presburger+
  moreover have "get_k1_k2_values (init key randint) = Inr (?l ! 0 div 100, 100)"
    using get_k1_k2_values_nonempty [OF ne]
    by (simp add: init_def k2_constant_def)
  ultimately show ?thesis by blast
qed

subsection \<open>Lock-step scenario\<close>

text \<open>
  Claim C8, as the code has it. The sender's hop 0 from the constructed state of key
  12345, with the draw that gives amplitude 3.0 (time 2, energy 18, index 0), replayed by
  the receiver with \<open>noise_level = 0\<close>: for every five draws of the constructor in
  \<open>[1000, 3000]\<close> and every \<^verbatim>\<open>random()\<close> value behind the receiver's time jitter, the
  receiver measures amplitude 3 and energy 18, accepts the hop, and its frequency differs
  from the sender's by less than 40, so \<open>is_match\<close> is true. The received time is 2 plus
  the jitter \<^verbatim>\<open>uniform(-0.05, 0.05)\<close>, which is added whatever \<open>noise_level\<close> is; whenever
  the received time is 2, the two frequencies are equal and \<open>frequency_difference\<close> is 0.
\<close>

theorem lock_step_match:
  assumes "set (map randint [0..<5]) \<subseteq> {1000..3000}"
    and "0 \<le> rnd_r 1" and "rnd_r 1 \<le> 1"
  shows "\<exists>sender_data result freq_result s.
      run_simulation (init 12345 randint) 1 draws_half 0 rnd_r = Inr ([sender_data], [result], s)
    \<and> sr_hop_number sender_data = 1
    \<and> sender_k_index sender_data = 0
    \<and> sender_amplitude sender_data = 3
    \<and> sender_time_ms sender_data = 2
    \<and> sender_energy sender_data = 18
    \<and> sp_amplitude (rr_measured result) = 3
    \<and> sp_energy (rr_measured result) = 18
    \<and> sp_time_ms (rr_measured result) = 2 + uniform (- 0.05) 0.05 (rnd_r 1)
    \<and> rr_freq_result result = Computed freq_result
    \<and> fr_k_index freq_result = 0
    \<and> rr_frequency_difference result =
        Finite \<bar>fr_frequency freq_result - sender_frequency sender_data\<bar>
    \<and> \<bar>fr_frequency freq_result - sender_frequency sender_data\<bar> < 40
    \<and> rr_is_match result
    \<and> (sp_time_ms (rr_measured result) = 2 \<longrightarrow>
          fr_frequency freq_result = sender_frequency sender_data
        \<and> rr_frequency_difference result = Finite 0)"
proof -
  from init_pair_bounds [OF assms(1)] obtain K where
    K: "get_k1_k2_values (init 12345 randint) = Inr (K, 100)" "10 \<le> K" "K \<le> 30"
    by blast
  have idx: "current_k_index (init 12345 randint) = 0"
    by (simp add: init_def)
  let ?T = "2 + uniform (- 0.05) 0.05 (rnd_r 1)"
  have T: "195 / 100 \<le> ?T" "?T \<le> 205 / 100"
    using assms(2,3) by (simp_all add: uniform_def)
  have T2: "(?T = 2) = (rnd_r 1 = 1 / 2)"
    by (auto simp add: uniform_def)
  note a = lock_step_arithmetic [OF K(2,3) T]
  from run_simulation_one_hop [where rnd_r = rnd_r, OF K(1) idx assms(2,3)]
  obtain sender_data result freq_result s where
    r: "run_simulation (init 12345 randint) 1 draws_half 0 rnd_r = Inr ([sender_data], [result], s)"
      "sr_hop_number sender_data = 1"
      "sender_k_index sender_data = 0"
      "sender_amplitude sender_data = 3"
      "sender_time_ms sender_data = 2"
      "sender_energy sender_data = 18"
      "sp_amplitude (rr_measured result) = 3"
      "sp_energy (rr_measured result) = 18"
      "sp_time_ms (rr_measured result) = ?T"
      "rr_freq_result result = Computed freq_result"
      "fr_k_index freq_result = 0"
    and f: "sender_frequency sender_data = band_correction (raw_frequency 3 K 18 100 2)"
      "fr_frequency freq_result = band_correction (raw_frequency 3 K 18 100 ?T)"
    and d: "rr_frequency_difference result =
        Finite \<bar>fr_frequency freq_result - sender_frequency sender_data\<bar>"
      "rr_is_match result = (\<bar>fr_frequency freq_result - sender_frequency sender_data\<bar> < 40)"
    by blast
  have fs: "sender_frequency sender_data = 2000 + (3 * of_int K + 1800) / 2"
    using f(1) a(1) by simp
  have fr: "fr_frequency freq_result = 2000 + (3 * of_int K + 1800) / ?T"
    using f(2) a(2) by simp
  have close: "\<bar>fr_frequency freq_result - sender_frequency sender_data\<bar> < 40"
    unfolding fs fr by (rule a(3))
  have same: "(fr_frequency freq_result = sender_frequency sender_data) = (rnd_r 1 = 1 / 2)"
    unfolding fs fr using a(4) T2 by simp
  have zero: "(rr_frequency_difference result = Finite 0) = (rnd_r 1 = 1 / 2)"
    unfolding d(1) using same by simp
  have equal: "sp_time_ms (rr_measured result) = 2 \<longrightarrow>
          fr_frequency freq_result = sender_frequency sender_data
        \<and> rr_frequency_difference result = Finite 0"
    using r(9) T2 same zero by simp
  from r d(1) close d(2) equal show ?thesis by blast
qed

theorem lock_step_match_witness:
  "set (map key_12345_randint [0..<5]) \<subseteq> {1000..3000}
   \<and> 0 \<le> draws_half 1 \<and> draws_half 1 \<le> 1
   \<and> (\<exists>sender_data result freq_result s.
         run_simulation (init 12345 key_12345_randint) 1 draws_half 0 draws_half
           = Inr ([sender_data], [result], s)
       \<and> sender_amplitude sender_data = 3
       \<and> sender_time_ms sender_data = 2
       \<and> sender_energy sender_data = 18
       \<and> sp_time_ms (rr_measured result) = 2
       \<and> rr_freq_result result = Computed freq_result
       \<and> fr_frequency freq_result = sender_frequency sender_data
       \<and> rr_frequency_difference result = Finite 0
       \<and> rr_is_match result)"
proof -
  have draws: "set (map key_12345_randint [0..<5]) \<subseteq> {1000..3000}"
    by (simp add: key_12345_randint_def upt_rec)
  have lo: "0 \<le> draws_half 1" and hi: "draws_half 1 \<le> 1"
    by (simp_all add: draws_half_def)
  have jitter: "2 + uniform (- 0.05) 0.05 (draws_half 1) = 2"
    by (simp add: draws_half_def uniform_def)
  from lock_step_match [where rnd_r = draws_half, OF draws lo hi]
  obtain sender_data result freq_result s where
    r: "run_simulation (init 12345 key_12345_randint) 1 draws_half 0 draws_half
           = Inr ([sender_data], [result], s)"
      "sender_amplitude sender_data = 3"
      "sender_time_ms sender_data = 2"
      "sender_energy sender_data = 18"
      "rr_freq_result result = Computed freq_result"
      "rr_is_match result"
    and t: "sp_time_ms (rr_measured result) = 2 + uniform (- 0.05) 0.05 (draws_half 1)"
    and e: "sp_time_ms (rr_measured result) = 2 \<longrightarrow>
          fr_frequency freq_result = sender_frequency sender_data
        \<and> rr_frequency_difference result = Finite 0"
    by blast
  from t jitter have t2: "sp_time_ms (rr_measured result) = 2"
    by simp
  with e have "fr_frequency freq_result = sender_frequency sender_data"
    and "rr_frequency_difference result = Finite 0"
    by blast+
  with draws lo hi r t2 show ?thesis by blast
qed

text \<open>
  Claim C8 as stated fails on the instance of key 12345 when the jitter draw is 0 (jitter
  \<open>-0.05\<close>, received time 1.95): the sender's frequency is 2915, the receiver's is
  \<open>38200 / 13\<close> (about 2938.46), and \<open>frequency_difference\<close> is \<open>305 / 13\<close>, not 0.
\<close>

theorem lock_step_difference_not_zero:
  "(case run_simulation algorithm_12345 1 draws_half 0 draws_zero of
      Inl e \<Rightarrow> None
    | Inr (sender_results, receiver_results, s) \<Rightarrow>
        Some (map sender_amplitude sender_results,
              map sender_time_ms sender_results,
              map sender_energy sender_results,
              map sender_frequency sender_results,
              map (\<lambda>result. receiver_frequency_value (rr_freq_result result)) receiver_results,
              map rr_frequency_difference receiver_results,
              map rr_is_match receiver_results))
   = Some ([3], [2], [18], [2915], [38200 / 13], [Finite (305 / 13)], [True])"
proof -
  have z: "0 \<le> draws_zero 1" "draws_zero 1 \<le> 1"
    by (simp_all add: draws_zero_def)
  from run_simulation_one_hop
    [where rnd_r = draws_zero, OF get_k1_k2_values_fresh_12345 current_k_index_algorithm_12345 z]
  obtain sender_data result freq_result s where
    r: "run_simulation algorithm_12345 1 draws_half 0 draws_zero = Inr ([sender_data], [result], s)"
      "sender_amplitude sender_data = 3"
      "sender_time_ms sender_data = 2"
      "sender_energy sender_data = 18"
      "rr_freq_result result = Computed freq_result"
    and f: "sender_frequency sender_data = band_correction (raw_frequency 3 10 18 100 2)"
      "fr_frequency freq_result =
        band_correction (raw_frequency 3 10 18 100 (2 + uniform (- 0.05) 0.05 (draws_zero 1)))"
    and d: "rr_frequency_difference result =
        Finite \<bar>fr_frequency freq_result - sender_frequency sender_data\<bar>"
      "rr_is_match result = (\<bar>fr_frequency freq_result - sender_frequency sender_data\<bar> < 40)"
    by blast
  have fs: "sender_frequency sender_data = 2915"
    unfolding f(1)
    by (simp add: raw_frequency_def py_truediv_def f0_def band_correction_def
        band_min_def band_max_def)
  have fr: "fr_frequency freq_result = 38200 / 13"
    unfolding f(2)
    by (simp add: raw_frequency_def py_truediv_def f0_def band_correction_def
        band_min_def band_max_def uniform_def draws_zero_def)
  have dd: "rr_frequency_difference result = Finite (305 / 13)"
    unfolding d(1) fs fr by simp
  have m: "rr_is_match result"
    unfolding d(2) fs fr by simp
  show ?thesis
    by (simp add: r fs fr dd m)
qed

section \<open>Properties of the statistics\<close>

text \<open>
  \<open>calculate_statistics\<close> returns on every pair of lists: each division and each
  \<^verbatim>\<open>min\<close>/\<^verbatim>\<open>max\<close> is guarded by the test that its list is not empty.
\<close>

lemma py_min_max_nonempty:
  "xs \<noteq> [] \<Longrightarrow> \<exists>m. py_min xs = Inr m"
  "xs \<noteq> [] \<Longrightarrow> \<exists>m. py_max xs = Inr m"
  by (cases xs; simp add: py_min_def py_max_def)+

lemma calculate_statistics_closed:
  "\<exists>avg mn mx rng.
     calculate_statistics sender_results receiver_results =
       Inr \<lparr> sender =
               \<lparr> total_hops = length sender_results,
                 valid_hops = length (filter sender_is_valid sender_results),
                 avg_frequency = avg,
                 min_frequency = mn,
                 max_frequency = mx,
                 frequency_range = rng \<rparr>,
             receiver =
               \<lparr> total_receptions = length receiver_results,
                 valid_receptions =
                   length (filter (\<lambda>r. vr_is_valid (rr_validation r)) receiver_results),
                 successful_matches =
                   length (filter rr_is_match
                     (filter (\<lambda>r. vr_is_valid (rr_validation r)) receiver_results)),
                 success_rate =
                   (if receiver_results \<noteq> []
                    then real (length (filter rr_is_match
                           (filter (\<lambda>r. vr_is_valid (rr_validation r)) receiver_results)))
                         / real (length receiver_results) * 100
                    else 0),
                 validation_rate =
                   (if receiver_results \<noteq> []
                    then real (length (filter (\<lambda>r. vr_is_valid (rr_validation r)) receiver_results))
                         / real (length receiver_results) * 100
                    else 0),
                 noise_percentage = 0.99,
                 estimated_snr_db = 10 * log 10 (1 / (0.99 / 100)) \<rparr> \<rparr>
   \<and> (filter sender_is_valid sender_results = [] \<longrightarrow> avg = 0 \<and> mn = 0 \<and> mx = 0 \<and> rng = 0)"
proof (cases "filter sender_is_valid sender_results = []")
  case True
  then show ?thesis
    by (simp add: calculate_statistics_def Let_def py_bind_def py_truediv_def)
next
  case False
  let ?fs = "map sender_frequency (filter sender_is_valid sender_results)"
  from False have ne: "?fs \<noteq> []" by simp
  from py_min_max_nonempty [OF ne] obtain mn mx where
    m: "py_min ?fs = Inr mn" "py_max ?fs = Inr mx"
    by blast
  from False m show ?thesis
    by (simp add: calculate_statistics_def Let_def py_bind_def py_truediv_def)
qed

text \<open>
  Claim C9. \<open>calculate_statistics\<close> returns a result for every input. When the sender
  sequence has no valid hop (in particular when it is empty), the average, minimum,
  maximum and range of the frequency are all 0. With \<open>R\<close> the number of receiver results
  and \<open>M\<close> the number of successful matches (results that passed validation and match),
  the success rate is \<open>M / R * 100\<close> when \<open>R > 0\<close> and 0 when \<open>R = 0\<close>.
\<close>

theorem calculate_statistics_degenerate:
  "\<exists>st. calculate_statistics sender_results receiver_results = Inr st
     \<and> (filter sender_is_valid sender_results = [] \<longrightarrow>
           avg_frequency (sender st) = 0 \<and> min_frequency (sender st) = 0
         \<and> max_frequency (sender st) = 0 \<and> frequency_range (sender st) = 0)
     \<and> total_receptions (receiver st) = length receiver_results
     \<and> successful_matches (receiver st) =
         length (filter (\<lambda>r. vr_is_valid (rr_validation r) \<and> rr_is_match r) receiver_results)
     \<and> (receiver_results \<noteq> [] \<longrightarrow>
           success_rate (receiver st) =
             real (successful_matches (receiver st)) / real (total_receptions (receiver st)) * 100)
     \<and> (receiver_results = [] \<longrightarrow> success_rate (receiver st) = 0)"
proof -
  have conj: "filter rr_is_match (filter (\<lambda>r. vr_is_valid (rr_validation r)) receiver_results) =
      filter (\<lambda>r. vr_is_valid (rr_validation r) \<and> rr_is_match r) receiver_results"
    by (simp add: conj_commute)
  from calculate_statistics_closed [of sender_results receiver_results]
  obtain avg mn mx rng where
    "calculate_statistics sender_results receiver_results =
       Inr \<lparr> sender =
               \<lparr> total_hops = length sender_results,
                 valid_hops = length (filter sender_is_valid sender_results),
                 avg_frequency = avg,
                 min_frequency = mn,
                 max_frequency = mx,
                 frequency_range = rng \<rparr>,
             receiver =
               \<lparr> total_receptions = length receiver_results,
                 valid_receptions =
                   length (filter (\<lambda>r. vr_is_valid (rr_validation r)) receiver_results),
                 successful_matches =
                   length (filter rr_is_match
                     (filter (\<lambda>r. vr_is_valid (rr_validation r)) receiver_results)),
                 success_rate =
                   (if receiver_results \<noteq> []
                    then real (length (filter rr_is_match
                           (filter (\<lambda>r. vr_is_valid (rr_validation r)) receiver_results)))
                         / real (length receiver_results) * 100
                    else 0),
                 validation_rate =
                   (if receiver_results \<noteq> []
                    then real (length (filter (\<lambda>r. vr_is_valid (rr_validation r)) receiver_results))
                         / real (length receiver_results) * 100
                    else 0),
                 noise_percentage = 0.99,
                 estimated_snr_db = 10 * log 10 (1 / (0.99 / 100)) \<rparr> \<rparr>"
    and "filter sender_is_valid sender_results = [] \<longrightarrow> avg = 0 \<and> mn = 0 \<and> mx = 0 \<and> rng = 0"
    by blast
  then show ?thesis
    by (simp add: conj)
qed

theorem calculate_statistics_degenerate_witness:
  "filter sender_is_valid [] = []
   \<and> [sample_accepted_record, sample_rejected_record] \<noteq> []
   \<and> (\<exists>st. calculate_statistics [] [sample_accepted_record, sample_rejected_record] = Inr st
        \<and> avg_frequency (sender st) = 0 \<and> min_frequency (sender st) = 0
        \<and> max_frequency (sender st) = 0 \<and> frequency_range (sender st) = 0
        \<and> total_receptions (receiver st) = 2
        \<and> successful_matches (receiver st) = 1
        \<and> success_rate (receiver st) = 50)
   \<and> (\<exists>st. calculate_statistics [] [] = Inr st \<and> success_rate (receiver st) = 0)"
proof -
  have m: "length (filter (\<lambda>r. vr_is_valid (rr_validation r) \<and> rr_is_match r)
      [sample_accepted_record, sample_rejected_record]) = 1"
    by (simp add: sample_accepted_record_def sample_rejected_record_def validate_signal_def
        Let_def nominal_amplitude_def amplitude_tolerance_def t_hop_def time_tolerance_def)
  from calculate_statistics_degenerate [of "[]" "[sample_accepted_record, sample_rejected_record]"]
  have a: "\<exists>st. calculate_statistics [] [sample_accepted_record, sample_rejected_record] = Inr st
        \<and> avg_frequency (sender st) = 0 \<and> min_frequency (sender st) = 0
        \<and> max_frequency (sender st) = 0 \<and> frequency_range (sender st) = 0
        \<and> total_receptions (receiver st) = 2
        \<and> successful_matches (receiver st) = 1
        \<and> success_rate (receiver st) = 50"
    unfolding m by (elim exE conjE, intro exI conjI) simp_all
  from calculate_statistics_degenerate [of "[]" "[]"]
  have b: "\<exists>st. calculate_statistics [] [] = Inr st \<and> success_rate (receiver st) = 0"
    by auto
  from a b show ?thesis by simp
qed

text \<open>
  Claim C10. Whatever noise level the receiver simulation ran with, the statistics of its
  results report \<open>noise_percentage = 0.99\<close> and the signal-to-noise estimate computed from
  that figure, \<open>10 * log10 (1 / (0.99 / 100))\<close>.
\<close>

theorem noise_statistics_fixed:
  assumes "simulate_receiver_operation s sender_results noise_level rnd = Inr (receiver_results, s')"
  shows "\<exists>st. calculate_statistics sender_results receiver_results = Inr st
     \<and> noise_percentage (receiver st) = 0.99
     \<and> estimated_snr_db (receiver st) = 10 * log 10 (1 / (0.99 / 100))"
  using calculate_statistics_closed [of sender_results receiver_results]
  by auto

theorem noise_statistics_fixed_witness:
  "\<exists>receiver_results s' st.
      simulate_receiver_operation algorithm_12345 [sample_sender_record] (1 / 2) draws_zero
        = Inr (receiver_results, s')
    \<and> calculate_statistics [sample_sender_record] receiver_results = Inr st
    \<and> noise_percentage (receiver st) = 0.99
    \<and> estimated_snr_db (receiver st) = 10 * log 10 (1 / (0.99 / 100))"
proof -
  let ?r0 = "algorithm_12345\<lparr>current_k_index := 0, hop_counter := 0\<rparr>"
  have ne: "k1_k2_list ?r0 \<noteq> []"
    by (simp add: k1_k2_list_algorithm_12345)
  have idx: "current_k_index ?r0 = int 0 mod int (length (k1_k2_list ?r0))"
    by simp
  from receiver_loop_indices [OF ne idx, of "1 / 2" draws_zero "[sample_sender_record]" "[]"]
  obtain receiver_results s' where
    run: "simulate_receiver_operation algorithm_12345 [sample_sender_record] (1 / 2) draws_zero
        = Inr (receiver_results, s')"
    by (auto simp add: simulate_receiver_operation_def Let_def)
  from noise_statistics_fixed [OF run] run show ?thesis by blast
qed

end
